theory Spec2Isabelle
  imports Complex_Main "HOL-Library.Word"
begin

unbundle bit_operations_syntax

section \<open>Data model of the image manager (render/image.cpp)\<close>

text \<open>
  Modelled from the spec: the enumeration \<open>ImageDataType\<close> lives in
  \<open>util/util_texture.h\<close>. The order of the tags is the one the spec gives for the flat
  handle: float4, byte4, half4, float, byte, half, ushort4, ushort (0 to 7), followed by
  the sentinel \<open>IMAGE_DATA_NUM_TYPES\<close>.
\<close>

datatype ImageDataType =
    IMAGE_DATA_TYPE_FLOAT4
  | IMAGE_DATA_TYPE_BYTE4
  | IMAGE_DATA_TYPE_HALF4
  | IMAGE_DATA_TYPE_FLOAT
  | IMAGE_DATA_TYPE_BYTE
  | IMAGE_DATA_TYPE_HALF
  | IMAGE_DATA_TYPE_USHORT4
  | IMAGE_DATA_TYPE_USHORT

definition all_types :: "ImageDataType list" where
  "all_types =
     [IMAGE_DATA_TYPE_FLOAT4, IMAGE_DATA_TYPE_BYTE4, IMAGE_DATA_TYPE_HALF4,
      IMAGE_DATA_TYPE_FLOAT, IMAGE_DATA_TYPE_BYTE, IMAGE_DATA_TYPE_HALF,
      IMAGE_DATA_TYPE_USHORT4, IMAGE_DATA_TYPE_USHORT]"

fun type_tag :: "ImageDataType \<Rightarrow> nat" where
  "type_tag IMAGE_DATA_TYPE_FLOAT4 = 0"
| "type_tag IMAGE_DATA_TYPE_BYTE4 = 1"
| "type_tag IMAGE_DATA_TYPE_HALF4 = 2"
| "type_tag IMAGE_DATA_TYPE_FLOAT = 3"
| "type_tag IMAGE_DATA_TYPE_BYTE = 4"
| "type_tag IMAGE_DATA_TYPE_HALF = 5"
| "type_tag IMAGE_DATA_TYPE_USHORT4 = 6"
| "type_tag IMAGE_DATA_TYPE_USHORT = 7"

definition type_of_tag :: "nat \<Rightarrow> ImageDataType" where
  "type_of_tag n =
     (if n = 0 then IMAGE_DATA_TYPE_FLOAT4
      else if n = 1 then IMAGE_DATA_TYPE_BYTE4
      else if n = 2 then IMAGE_DATA_TYPE_HALF4
      else if n = 3 then IMAGE_DATA_TYPE_FLOAT
      else if n = 4 then IMAGE_DATA_TYPE_BYTE
      else if n = 5 then IMAGE_DATA_TYPE_HALF
      else if n = 6 then IMAGE_DATA_TYPE_USHORT4
      else IMAGE_DATA_TYPE_USHORT)"

text \<open>
  Modelled from the spec: \<open>IMAGE_DATA_TYPE_SHIFT\<close> and \<open>IMAGE_DATA_TYPE_MASK\<close> are macros
  of \<open>util/util_texture.h\<close>; the comment in the source says that the lower three bits of
  a slot number carry the type.
\<close>

definition IMAGE_DATA_TYPE_SHIFT :: nat where
  "IMAGE_DATA_TYPE_SHIFT = 3"

definition IMAGE_DATA_TYPE_MASK :: "32 word" where
  "IMAGE_DATA_TYPE_MASK = 7"

text \<open>
  A C \<open>float\<close>: a finite value, an infinity or a NaN. The only operations the image
  manager applies to floats are \<open>isfinite\<close> and the comparison \<open>!=\<close>, which holds
  whenever one side is a NaN.
\<close>

datatype cfloat = Fin real | PosInf | NegInf | NaN

fun isfinite_float :: "cfloat \<Rightarrow> bool" where
  "isfinite_float (Fin _) = True"
| "isfinite_float _ = False"

definition float_ne :: "cfloat \<Rightarrow> cfloat \<Rightarrow> bool" where
  "float_ne a b = (a = NaN \<or> b = NaN \<or> a \<noteq> b)"

datatype InterpolationType =
    INTERPOLATION_NONE | INTERPOLATION_LINEAR | INTERPOLATION_CLOSEST
  | INTERPOLATION_CUBIC | INTERPOLATION_SMART

datatype ExtensionType = EXTENSION_REPEAT | EXTENSION_EXTEND | EXTENSION_CLIP

datatype ImageAlphaType =
    IMAGE_ALPHA_UNASSOCIATED | IMAGE_ALPHA_ASSOCIATED | IMAGE_ALPHA_CHANNEL_PACKED
  | IMAGE_ALPHA_IGNORE | IMAGE_ALPHA_AUTO

datatype ImageGridType =
    IMAGE_GRID_TYPE_DEFAULT | IMAGE_GRID_TYPE_SPARSE | IMAGE_GRID_TYPE_SPARSE_PAD
  | IMAGE_GRID_TYPE_OPENVDB

record ImageMetaData =
  md_is_float :: bool
  md_is_half :: bool
  md_channels :: int
  md_width :: int
  md_height :: int
  md_depth :: int
  md_builtin_free_cache :: bool
  md_type :: ImageDataType
  md_colorspace :: string
  md_compress_as_srgb :: bool

text \<open>
  One scalar of a pixel buffer. The loader is a template over the storage type
  (\<open>float\<close>, \<open>uchar\<close>, \<open>half\<close>, \<open>uint16_t\<close>); the model carries the four storage types
  in one datatype. A half is kept as its 16 bits.
\<close>

datatype sample = SFloat cfloat | SByte "8 word" | SHalf "16 word" | SUShort "16 word"

record device_memory =
  mem_name :: string
  mem_data_width :: nat
  mem_data_height :: nat
  mem_data_depth :: nat
  mem_pixels :: "sample list"
  mem_interpolation :: InterpolationType
  mem_extension :: ExtensionType
  mem_grid_type :: ImageGridType
  mem_grid_info :: "int list option"
  mem_dense_width :: int
  mem_dense_height :: int
  mem_dense_depth :: int

text \<open>
  Modelled from the spec: the struct \<open>ImageManager::Image\<close> is declared in
  \<open>render/image.h\<close>; its fields are the ones \<open>add_image\<close> fills, and the spec gives the
  user count as an unsigned 32-bit counter. A pointer (\<open>builtin_data\<close>) is an address,
  0 for \<open>NULL\<close>.
\<close>

record Image =
  img_filename :: string
  img_grid_name :: string
  img_builtin_data :: nat
  img_metadata :: ImageMetaData
  img_need_load :: bool
  img_animated :: bool
  img_frame :: cfloat
  img_interpolation :: InterpolationType
  img_extension :: ExtensionType
  img_users :: "32 word"
  img_alpha_type :: ImageAlphaType
  img_colorspace :: string
  img_is_volume :: bool
  img_isovalue :: cfloat
  img_mem :: "device_memory option"
  img_mem_name :: string

record ImageManager =
  need_update :: bool
  pack_images :: bool
  oiio_texture_system :: bool
  animation_frame :: int
  max_num_images :: int
  has_half_images :: bool
  tex_num_images :: "ImageDataType \<Rightarrow> int"
  images :: "ImageDataType \<Rightarrow> Image option list"

subsection \<open>Flat handles\<close>

text \<open>
  \<open>type_index_to_flattened_slot\<close>: \<open>(slot << IMAGE_DATA_TYPE_SHIFT) | type\<close> on a 32-bit
  \<open>int\<close>; callers pass a \<open>size_t\<close> slot, which the conversion truncates to 32 bits.
\<close>

definition type_index_to_flattened_slot :: "nat \<Rightarrow> ImageDataType \<Rightarrow> 32 word" where
  "type_index_to_flattened_slot slot type =
     push_bit IMAGE_DATA_TYPE_SHIFT (word_of_nat slot) OR word_of_nat (type_tag type)"

text \<open>
  \<open>flattened_slot_to_type_index\<close>: the type is \<open>flat_slot & IMAGE_DATA_TYPE_MASK\<close>, the
  slot the arithmetic shift \<open>flat_slot >> IMAGE_DATA_TYPE_SHIFT\<close> of the signed handle.
\<close>

definition flattened_slot_to_type_index :: "32 word \<Rightarrow> int \<times> ImageDataType" where
  "flattened_slot_to_type_index flat_slot =
     (sint (signed_drop_bit IMAGE_DATA_TYPE_SHIFT flat_slot),
      type_of_tag (unat (flat_slot AND IMAGE_DATA_TYPE_MASK)))"

text \<open>
  \<open>images[type][slot]\<close> for a signed slot: a read outside the vector is undefined
  behaviour in the source, \<open>None\<close> here; inside, the entry is a record or \<open>NULL\<close>.
\<close>

definition image_at :: "ImageManager \<Rightarrow> ImageDataType \<Rightarrow> int \<Rightarrow> Image option option" where
  "image_at mgr type slot =
     (if 0 \<le> slot \<and> nat slot < length (images mgr type)
      then Some (images mgr type ! nat slot) else None)"

text \<open>
  \<open>ImageManager::get_image_metadata(int flat_slot, ImageMetaData &metadata)\<close>. The
  result is the returned flag with the value of the out-parameter; \<open>None\<close> when the slot
  is read outside its vector.
\<close>

definition get_image_metadata_slot ::
  "ImageManager \<Rightarrow> 32 word \<Rightarrow> ImageMetaData \<Rightarrow> (bool \<times> ImageMetaData) option" where
  "get_image_metadata_slot mgr flat_slot metadata =
     (if flat_slot = - 1 then Some (False, metadata)
      else
        let (slot, type) = flattened_slot_to_type_index flat_slot in
        (case image_at mgr type slot of
           None \<Rightarrow> None
         | Some None \<Rightarrow> Some (False, metadata)
         | Some (Some img) \<Rightarrow> Some (True, img_metadata img)))"

subsection \<open>Colorspace detection\<close>

text \<open>
  The collaborators of the metadata probe and of the loader: the file system, the
  builtin-image callbacks, the OpenVDB reader, the image reader, the colorspace manager
  and the device allocator. Each field is what the named call returns. \<open>uninitialized\<close>
  is what memory holds that nobody wrote, and \<open>freed_memory v\<close> what a read through a
  pointer into the vector \<open>v\<close> delivers after \<open>v\<close> was destroyed; such a read is
  undefined behaviour in the source, and nothing is known about its value.
\<close>

datatype attr_value = AttrInt int | AttrStr string

datatype BASETYPE = UINT8 | USHORT | TD_HALF | TD_FLOAT | TD_DOUBLE | TD_OTHER

record ImageSpec =
  spec_width :: int
  spec_height :: int
  spec_depth :: int
  spec_nchannels :: int
  spec_format :: BASETYPE
  spec_channelformats :: "BASETYPE list"

record Env =
  u_colorspace_raw :: string
  u_colorspace_srgb :: string
  detect_known_colorspace :: "string \<Rightarrow> string \<Rightarrow> bool \<Rightarrow> string"
  colorspace_is_data :: "string \<Rightarrow> bool"
  builtin_image_info_cb :: "(string \<Rightarrow> nat \<Rightarrow> ImageMetaData \<Rightarrow> ImageMetaData) option"
  builtin_image_pixels_cb :: "(string \<Rightarrow> nat \<Rightarrow> bool \<Rightarrow> sample list) option"
  builtin_image_float_pixels_cb :: "string \<Rightarrow> nat \<Rightarrow> bool \<Rightarrow> sample list"
  path_exists :: "string \<Rightarrow> bool"
  path_is_directory :: "string \<Rightarrow> bool"
  with_openvdb :: bool
  openvdb_has_grid :: "string \<Rightarrow> string \<Rightarrow> bool"
  openvdb_get_resolution :: "string \<Rightarrow> int \<times> int \<times> int"
  volume_color_name :: string
  volume_velocity_name :: string
  ImageInput_create :: "string \<Rightarrow> bool"
  ImageInput_open :: "string \<Rightarrow> ImageSpec option"
  ImageInput_open_config :: "string \<Rightarrow> bool \<Rightarrow> bool"
  format_name :: "string \<Rightarrow> string"
  read_image :: "string \<Rightarrow> BASETYPE \<Rightarrow> bool \<Rightarrow> sample list"
  ImageMetaData_default :: ImageMetaData
  metadata_equals :: "ImageMetaData \<Rightarrow> ImageMetaData \<Rightarrow> bool"
  uninitialized :: sample
  freed_memory :: "sample list \<Rightarrow> sample list"
  util_image_cast_from_float :: "BASETYPE \<Rightarrow> cfloat \<Rightarrow> sample"
  util_image_cast_to_float :: "sample \<Rightarrow> cfloat"
  float_sub :: "cfloat \<Rightarrow> cfloat \<Rightarrow> cfloat"
  float_mul :: "cfloat \<Rightarrow> cfloat \<Rightarrow> cfloat"
  half_of_int :: "int \<Rightarrow> 16 word"
  to_scene_linear :: "string \<Rightarrow> sample list \<Rightarrow> nat \<Rightarrow> nat \<Rightarrow> nat \<Rightarrow> bool \<Rightarrow> sample list"
  util_image_resize_pixels ::
    "sample list \<Rightarrow> nat \<Rightarrow> nat \<Rightarrow> nat \<Rightarrow> nat \<Rightarrow> nat \<Rightarrow> sample list \<times> nat \<times> nat \<times> nat"
  create_sparse_grid_pad ::
    "sample list \<Rightarrow> nat \<Rightarrow> nat \<Rightarrow> nat \<Rightarrow> nat \<Rightarrow> string \<Rightarrow> cfloat \<Rightarrow>
     (sample list \<times> int list \<times> int \<times> int \<times> int) option"
  create_sparse_grid ::
    "sample list \<Rightarrow> nat \<Rightarrow> nat \<Rightarrow> nat \<Rightarrow> nat \<Rightarrow> string \<Rightarrow> cfloat \<Rightarrow>
     (sample list \<times> int list) option"
  openvdb_load_preprocess :: "string \<Rightarrow> string \<Rightarrow> cfloat \<Rightarrow> bool \<Rightarrow> int list \<times> int"
  openvdb_load_image :: "string \<Rightarrow> string \<Rightarrow> int list \<Rightarrow> int \<Rightarrow> bool \<Rightarrow> sample list"
  PADDED_TILE :: nat
  make_texture :: "string \<Rightarrow> string \<Rightarrow> (string \<times> attr_value) list \<Rightarrow> bool"
  path_filename :: "string \<Rightarrow> string"
  path_join :: "string \<Rightarrow> string \<Rightarrow> string"
  get_texture_handle :: "string \<Rightarrow> nat"
  texture_handle_good :: "nat \<Rightarrow> bool"

text \<open>
  \<open>ImageManager::metadata_detect_colorspace\<close>.
\<close>

definition metadata_detect_colorspace :: "Env \<Rightarrow> ImageMetaData \<Rightarrow> string \<Rightarrow> ImageMetaData" where
  "metadata_detect_colorspace env metadata file_format =
     (let metadata = metadata\<lparr>md_colorspace :=
            detect_known_colorspace env (md_colorspace metadata) file_format
              (md_is_float metadata \<or> md_is_half metadata)\<rparr>
      in
      if md_colorspace metadata = u_colorspace_raw env then metadata
      else if md_colorspace metadata = u_colorspace_srgb env
        then metadata\<lparr>md_compress_as_srgb := True\<rparr>
      else
        let metadata = metadata\<lparr>md_compress_as_srgb :=
              (md_type metadata = IMAGE_DATA_TYPE_BYTE \<or> md_type metadata = IMAGE_DATA_TYPE_BYTE4)\<rparr>
        in
        if md_type metadata = IMAGE_DATA_TYPE_USHORT
          then metadata\<lparr>md_type := IMAGE_DATA_TYPE_HALF\<rparr>
        else if md_type metadata = IMAGE_DATA_TYPE_USHORT4
          then metadata\<lparr>md_type := IMAGE_DATA_TYPE_HALF4\<rparr>
        else metadata)"

subsection \<open>Metadata probe\<close>

definition string_endswith :: "string \<Rightarrow> string \<Rightarrow> bool" where
  "string_endswith s e = (length e \<le> length s \<and> drop (length s - length e) s = e)"

fun is_floating_point :: "BASETYPE \<Rightarrow> bool" where
  "is_floating_point TD_HALF = True"
| "is_floating_point TD_FLOAT = True"
| "is_floating_point TD_DOUBLE = True"
| "is_floating_point _ = False"

text \<open>
  \<open>ImageManager::get_image_metadata(filename, grid_name, builtin_data, colorspace,
  metadata)\<close>: the returned flag and the metadata written through the reference. The
  OpenVDB branch exists when the build has \<open>WITH_OPENVDB\<close>.
\<close>

definition get_image_metadata ::
  "Env \<Rightarrow> string \<Rightarrow> string \<Rightarrow> nat \<Rightarrow> string \<Rightarrow> bool \<times> ImageMetaData" where
  "get_image_metadata env filename grid_name builtin_data colorspace =
     (let metadata = (ImageMetaData_default env)\<lparr>md_colorspace := colorspace\<rparr> in
      if builtin_data \<noteq> 0 then
        (case builtin_image_info_cb env of
           None \<Rightarrow> (False, metadata)
         | Some cb \<Rightarrow>
             let metadata = cb filename builtin_data metadata;
                 metadata = metadata\<lparr>md_type :=
                   (if md_is_float metadata
                    then (if md_channels metadata > 1 then IMAGE_DATA_TYPE_FLOAT4
                          else IMAGE_DATA_TYPE_FLOAT)
                    else (if md_channels metadata > 1 then IMAGE_DATA_TYPE_BYTE4
                          else IMAGE_DATA_TYPE_BYTE))\<rparr>
             in (True, metadata_detect_colorspace env metadata []))
      else if \<not> path_exists env filename then (False, metadata)
      else if path_is_directory env filename then (False, metadata)
      else if with_openvdb env \<and> string_endswith filename ''.vdb'' then
        (if \<not> openvdb_has_grid env filename grid_name then (False, metadata)
         else
           let (x, y, z) = openvdb_get_resolution env filename;
               metadata = metadata\<lparr>md_width := x, md_height := y, md_depth := z,
                                   md_is_float := True, md_is_half := False\<rparr>
           in if grid_name = volume_color_name env \<or> grid_name = volume_velocity_name env
              then (True, metadata\<lparr>md_channels := 4, md_type := IMAGE_DATA_TYPE_FLOAT4\<rparr>)
              else (True, metadata\<lparr>md_channels := 1, md_type := IMAGE_DATA_TYPE_FLOAT\<rparr>))
      else if \<not> ImageInput_create env filename then (False, metadata)
      else
        (case ImageInput_open env filename of
           None \<Rightarrow> (False, metadata)
         | Some spec \<Rightarrow>
             let metadata = metadata\<lparr>md_width := spec_width spec, md_height := spec_height spec,
                                     md_depth := spec_depth spec, md_compress_as_srgb := False\<rparr>;
                 metadata = (if is_floating_point (spec_format spec)
                             then metadata\<lparr>md_is_float := True\<rparr> else metadata);
                 metadata = (if list_ex is_floating_point (spec_channelformats spec)
                             then metadata\<lparr>md_is_float := True\<rparr> else metadata);
                 metadata = (if spec_format spec = TD_HALF
                             then metadata\<lparr>md_is_half := True\<rparr> else metadata);
                 metadata = metadata\<lparr>md_channels := spec_nchannels spec\<rparr>;
                 metadata = metadata\<lparr>md_type :=
                   (if md_is_half metadata
                    then (if md_channels metadata > 1 then IMAGE_DATA_TYPE_HALF4
                          else IMAGE_DATA_TYPE_HALF)
                    else if md_is_float metadata
                    then (if md_channels metadata > 1 then IMAGE_DATA_TYPE_FLOAT4
                          else IMAGE_DATA_TYPE_FLOAT)
                    else if spec_format spec = USHORT
                    then (if md_channels metadata > 1 then IMAGE_DATA_TYPE_USHORT4
                          else IMAGE_DATA_TYPE_USHORT)
                    else (if md_channels metadata > 1 then IMAGE_DATA_TYPE_BYTE4
                          else IMAGE_DATA_TYPE_BYTE))\<rparr>
             in (True, metadata_detect_colorspace env metadata (format_name env filename))))"

subsection \<open>Adding and removing images\<close>

text \<open>The arguments of \<open>add_image\<close> that \<open>image_equals\<close> compares.\<close>

record ImageIdentity =
  id_filename :: string
  id_grid_name :: string
  id_builtin_data :: nat
  id_interpolation :: InterpolationType
  id_extension :: ExtensionType
  id_alpha_type :: ImageAlphaType
  id_colorspace :: string

definition image_equals :: "Image \<Rightarrow> ImageIdentity \<Rightarrow> bool" where
  "image_equals img i =
     (img_filename img = id_filename i \<and> img_grid_name img = id_grid_name i \<and>
      img_builtin_data img = id_builtin_data i \<and>
      img_interpolation img = id_interpolation i \<and> img_extension img = id_extension i \<and>
      img_alpha_type img = id_alpha_type i \<and> img_colorspace img = id_colorspace i)"

text \<open>
  The loop "find existing image" of \<open>add_image\<close>: the first slot, counted from \<open>slot\<close>,
  whose record is not \<open>NULL\<close> and equals the identity.
\<close>

fun find_image :: "ImageIdentity \<Rightarrow> Image option list \<Rightarrow> nat \<Rightarrow> (nat \<times> Image) option" where
  "find_image i [] slot = None"
| "find_image i (None # imgs) slot = find_image i imgs (Suc slot)"
| "find_image i (Some img # imgs) slot =
     (if image_equals img i then Some (slot, img) else find_image i imgs (Suc slot))"

text \<open>The loop "find free slot": the first \<open>NULL\<close> entry, or the size of the vector.\<close>

fun find_free_slot :: "Image option list \<Rightarrow> nat \<Rightarrow> nat" where
  "find_free_slot [] slot = slot"
| "find_free_slot (None # imgs) slot = slot"
| "find_free_slot (Some img # imgs) slot = find_free_slot imgs (Suc slot)"

text \<open>The sum of the per-type counters that \<open>add_image\<close> compares with the limit.\<close>

definition tex_count :: "ImageManager \<Rightarrow> int" where
  "tex_count mgr = sum_list (map (tex_num_images mgr) all_types)"

text \<open>The vector that \<open>add_image\<close> searches: the probed type, without halves on a
  device that has no half textures.\<close>

definition add_image_type :: "ImageManager \<Rightarrow> ImageMetaData \<Rightarrow> ImageDataType" where
  "add_image_type mgr metadata =
     (let type = md_type metadata in
      if \<not> has_half_images mgr then
        (if type = IMAGE_DATA_TYPE_HALF4 then IMAGE_DATA_TYPE_FLOAT4
         else if type = IMAGE_DATA_TYPE_HALF then IMAGE_DATA_TYPE_FLOAT
         else type)
      else type)"

text \<open>
  The body of the "find existing image" loop of \<open>add_image\<close> for the record that
  equals the identity: the record is tagged for a reload where the frame, the alpha type,
  the colorspace or the metadata differ, and gets one more user.
\<close>

definition reuse_image :: "Env \<Rightarrow> Image \<Rightarrow> ImageIdentity \<Rightarrow> cfloat \<Rightarrow> ImageMetaData \<Rightarrow> Image" where
  "reuse_image env img i frame metadata =
     (let img = (if float_ne (img_frame img) frame
                 then img\<lparr>img_frame := frame, img_need_load := True\<rparr> else img);
          img = (if img_alpha_type img \<noteq> id_alpha_type i
                 then img\<lparr>img_alpha_type := id_alpha_type i, img_need_load := True\<rparr>
                 else img);
          img = (if img_colorspace img \<noteq> id_colorspace i
                 then img\<lparr>img_colorspace := id_colorspace i, img_need_load := True\<rparr>
                 else img);
          img = (if \<not> metadata_equals env (img_metadata img) metadata
                 then img\<lparr>img_metadata := metadata, img_need_load := True\<rparr> else img)
      in img\<lparr>img_users := img_users img + 1\<rparr>)"

text \<open>The record under "add new image" of \<open>add_image\<close>.\<close>

definition new_image ::
  "ImageIdentity \<Rightarrow> bool \<Rightarrow> cfloat \<Rightarrow> bool \<Rightarrow> cfloat \<Rightarrow> ImageMetaData \<Rightarrow> Image" where
  "new_image i animated frame is_volume isovalue metadata =
     \<lparr>img_filename = id_filename i, img_grid_name = id_grid_name i,
      img_builtin_data = id_builtin_data i, img_metadata = metadata,
      img_need_load = True, img_animated = animated, img_frame = frame,
      img_interpolation = id_interpolation i,
      img_extension = id_extension i, img_users = 1,
      img_alpha_type = id_alpha_type i, img_colorspace = id_colorspace i,
      img_is_volume = is_volume, img_isovalue = isovalue,
      img_mem = None, img_mem_name = []\<rparr>"

text \<open>
  \<open>ImageManager::add_image\<close>: the returned flat handle, the metadata written through
  the reference and the manager afterwards. The result of the probe is not tested by the
  source.
\<close>

definition add_image ::
  "Env \<Rightarrow> ImageManager \<Rightarrow> ImageIdentity \<Rightarrow> bool \<Rightarrow> cfloat \<Rightarrow> bool \<Rightarrow> cfloat \<Rightarrow>
   32 word \<times> ImageMetaData \<times> ImageManager" where
  "add_image env mgr i animated frame is_volume isovalue =
     (let metadata = snd (get_image_metadata env (id_filename i) (id_grid_name i)
                            (id_builtin_data i) (id_colorspace i));
          type = add_image_type mgr metadata
      in
      case find_image i (images mgr type) 0 of
        Some (slot, img) \<Rightarrow>
          (type_index_to_flattened_slot slot type, metadata,
           mgr\<lparr>images := (images mgr)(type :=
                  (images mgr type)[slot := Some (reuse_image env img i frame metadata)])\<rparr>)
      | None \<Rightarrow>
          let slot = find_free_slot (images mgr type) 0 in
          if tex_count mgr > max_num_images mgr then (- 1, metadata, mgr)
          else
            let imgs = (if slot = length (images mgr type)
                        then images mgr type @ [None] else images mgr type)
            in (type_index_to_flattened_slot slot type, metadata,
                mgr\<lparr>images := (images mgr)(type :=
                       imgs[slot := Some (new_image i animated frame is_volume isovalue metadata)]),
                    tex_num_images := (tex_num_images mgr)(type := tex_num_images mgr type + 1),
                    need_update := True\<rparr>))"

text \<open>The number of records of a vector that equal an identity.\<close>

definition count_images :: "ImageIdentity \<Rightarrow> Image option list \<Rightarrow> nat" where
  "count_images i imgs =
     length (filter (\<lambda>x. case x of None \<Rightarrow> False | Some img \<Rightarrow> image_equals img i) imgs)"

text \<open>The user count of the record \<open>add_image\<close> would find, 0 when there is none.\<close>

definition users_of :: "ImageIdentity \<Rightarrow> Image option list \<Rightarrow> 32 word" where
  "users_of i imgs = (case find_image i imgs 0 of None \<Rightarrow> 0 | Some (slot, img) \<Rightarrow> img_users img)"

text \<open>The metadata \<open>add_image\<close> obtains from the probe, and the vector it searches.\<close>

definition probe_metadata :: "Env \<Rightarrow> ImageIdentity \<Rightarrow> ImageMetaData" where
  "probe_metadata env i =
     snd (get_image_metadata env (id_filename i) (id_grid_name i) (id_builtin_data i)
            (id_colorspace i))"

definition probe_type :: "Env \<Rightarrow> ImageManager \<Rightarrow> ImageIdentity \<Rightarrow> ImageDataType" where
  "probe_type env mgr i =
     add_image_type mgr (snd (get_image_metadata env (id_filename i) (id_grid_name i)
                                (id_builtin_data i) (id_colorspace i)))"

text \<open>
  The vector after "find free slot" and "add new image": the record goes into the first
  free slot counted from \<open>k\<close>, and the vector grows by one entry when there is none.
\<close>

definition insert_image :: "Image option list \<Rightarrow> nat \<Rightarrow> Image \<Rightarrow> Image option list" where
  "insert_image imgs k img =
     (let slot = find_free_slot imgs k - k in
      (if slot = length imgs then imgs @ [None] else imgs)[slot := Some img])"

subsection \<open>The pixel loops of the loader\<close>

text \<open>
  The loops of \<open>file_load_image\<close> work in place on the pixel buffer, from the last
  pixel to the first: \<open>for (i = num_pixels - 1, pixel = 0; pixel < num_pixels; pixel++, i--)\<close>.
  In each function below the first argument counts the pixels still to do, so that
  \<open>Suc i\<close> handles pixel \<open>i\<close> and goes on with \<open>i - 1\<close>.
\<close>

text \<open>More than four components: the first four of each pixel, from the temporary buffer.\<close>

fun scatter_first_four :: "nat \<Rightarrow> nat \<Rightarrow> 'a list \<Rightarrow> 'a list \<Rightarrow> 'a list" where
  "scatter_first_four components 0 tmppixels pixels = pixels"
| "scatter_first_four components (Suc i) tmppixels pixels =
     scatter_first_four components i tmppixels
       (let pixels = pixels[i * 4 + 3 := tmppixels ! (i * components + 3)];
            pixels = pixels[i * 4 + 2 := tmppixels ! (i * components + 2)];
            pixels = pixels[i * 4 + 1 := tmppixels ! (i * components + 1)];
            pixels = pixels[i * 4 + 0 := tmppixels ! (i * components + 0)]
        in pixels)"

text \<open>CMYK to RGBA; \<open>conv c k\<close> is \<open>cast_from_float((1.0f - cast_to_float(c)) * (1.0f - cast_to_float(k)))\<close>.\<close>

fun cmyk_to_rgba :: "('a \<Rightarrow> 'a \<Rightarrow> 'a) \<Rightarrow> 'a \<Rightarrow> nat \<Rightarrow> 'a list \<Rightarrow> 'a list" where
  "cmyk_to_rgba conv one 0 pixels = pixels"
| "cmyk_to_rgba conv one (Suc i) pixels =
     cmyk_to_rgba conv one i
       (let c = pixels ! (i * 4 + 0);
            m = pixels ! (i * 4 + 1);
            y = pixels ! (i * 4 + 2);
            k = pixels ! (i * 4 + 3);
            pixels = pixels[i * 4 + 0 := conv c k];
            pixels = pixels[i * 4 + 1 := conv m k];
            pixels = pixels[i * 4 + 2 := conv y k];
            pixels = pixels[i * 4 + 3 := one]
        in pixels)"

text \<open>Grayscale and alpha to RGBA.\<close>

fun gray_alpha_to_rgba :: "nat \<Rightarrow> 'a list \<Rightarrow> 'a list" where
  "gray_alpha_to_rgba 0 pixels = pixels"
| "gray_alpha_to_rgba (Suc i) pixels =
     gray_alpha_to_rgba i
       (let pixels = pixels[i * 4 + 3 := pixels ! (i * 2 + 1)];
            pixels = pixels[i * 4 + 2 := pixels ! (i * 2 + 0)];
            pixels = pixels[i * 4 + 1 := pixels ! (i * 2 + 0)];
            pixels = pixels[i * 4 + 0 := pixels ! (i * 2 + 0)]
        in pixels)"

text \<open>RGB to RGBA.\<close>

fun rgb_to_rgba :: "'a \<Rightarrow> nat \<Rightarrow> 'a list \<Rightarrow> 'a list" where
  "rgb_to_rgba one 0 pixels = pixels"
| "rgb_to_rgba one (Suc i) pixels =
     rgb_to_rgba one i
       (let pixels = pixels[i * 4 + 3 := one];
            pixels = pixels[i * 4 + 2 := pixels ! (i * 3 + 2)];
            pixels = pixels[i * 4 + 1 := pixels ! (i * 3 + 1)];
            pixels = pixels[i * 4 + 0 := pixels ! (i * 3 + 0)]
        in pixels)"

text \<open>Grayscale to RGBA.\<close>

fun gray_to_rgba :: "'a \<Rightarrow> nat \<Rightarrow> 'a list \<Rightarrow> 'a list" where
  "gray_to_rgba one 0 pixels = pixels"
| "gray_to_rgba one (Suc i) pixels =
     gray_to_rgba one i
       (let pixels = pixels[i * 4 + 3 := one];
            pixels = pixels[i * 4 + 2 := pixels ! i];
            pixels = pixels[i * 4 + 1 := pixels ! i];
            pixels = pixels[i * 4 + 0 := pixels ! i]
        in pixels)"

text \<open>Alpha disabled by the user (\<open>IMAGE_ALPHA_IGNORE\<close>).\<close>

fun disable_alpha :: "'a \<Rightarrow> nat \<Rightarrow> 'a list \<Rightarrow> 'a list" where
  "disable_alpha one 0 pixels = pixels"
| "disable_alpha one (Suc i) pixels = disable_alpha one i (pixels[i * 4 + 3 := one])"

text \<open>
  The finite guard of an RGBA buffer, as written:
  \<open>for (size_t i = 0; i < num_pixels; i += 4) { StorageType *pixel = &pixels[i * 4]; ... }\<close>.
\<close>

function finite_guard_rgba :: "('a \<Rightarrow> bool) \<Rightarrow> 'a \<Rightarrow> nat \<Rightarrow> nat \<Rightarrow> 'a list \<Rightarrow> 'a list" where
  "finite_guard_rgba isfinite zero num_pixels i pixels =
     (if i < num_pixels then
        finite_guard_rgba isfinite zero num_pixels (i + 4)
          (if \<not> isfinite (pixels ! (i * 4 + 0)) \<or> \<not> isfinite (pixels ! (i * 4 + 1)) \<or>
              \<not> isfinite (pixels ! (i * 4 + 2)) \<or> \<not> isfinite (pixels ! (i * 4 + 3))
           then pixels[i * 4 + 0 := zero, i * 4 + 1 := zero, i * 4 + 2 := zero, i * 4 + 3 := zero]
           else pixels)
      else pixels)"
  by pat_completeness auto
termination
  by (relation "measure (\<lambda>(isfinite, zero, num_pixels, i, pixels). num_pixels - i)") auto

text \<open>
  The finite guard of a single-channel buffer:
  \<open>for (size_t i = 0; i < num_pixels; ++i) { StorageType *pixel = &pixels[i]; ... }\<close>.
\<close>

function finite_guard_single :: "('a \<Rightarrow> bool) \<Rightarrow> 'a \<Rightarrow> nat \<Rightarrow> nat \<Rightarrow> 'a list \<Rightarrow> 'a list" where
  "finite_guard_single isfinite zero num_pixels i pixels =
     (if i < num_pixels then
        finite_guard_single isfinite zero num_pixels (i + 1)
          (if \<not> isfinite (pixels ! i) then pixels[i := zero] else pixels)
      else pixels)"
  by pat_completeness auto
termination
  by (relation "measure (\<lambda>(isfinite, zero, num_pixels, i, pixels). num_pixels - i)") auto

text \<open>
  The overloads of \<open>isfinite\<close> at the head of the file: always true for \<open>uchar\<close>,
  \<open>half\<close> and \<open>uint16_t\<close>; the library's function for \<open>float\<close>.
\<close>

fun isfinite :: "sample \<Rightarrow> bool" where
  "isfinite (SFloat f) = isfinite_float f"
| "isfinite (SByte _) = True"
| "isfinite (SHalf _) = True"
| "isfinite (SUShort _) = True"

text \<open>The literal \<open>0\<close> stored into a buffer of the storage type that goes with a file format.\<close>

fun storage_zero :: "BASETYPE \<Rightarrow> sample" where
  "storage_zero UINT8 = SByte 0"
| "storage_zero USHORT = SUShort 0"
| "storage_zero TD_HALF = SHalf 0"
| "storage_zero _ = SFloat (Fin 0)"

definition is_rgba_type :: "ImageDataType \<Rightarrow> bool" where
  "is_rgba_type type =
     (type = IMAGE_DATA_TYPE_FLOAT4 \<or> type = IMAGE_DATA_TYPE_HALF4 \<or>
      type = IMAGE_DATA_TYPE_BYTE4 \<or> type = IMAGE_DATA_TYPE_USHORT4)"

text \<open>
  The first part of the block \<open>if (is_rgba) { ... }\<close> of \<open>file_load_image\<close>: expansion
  to RGBA and alpha override. \<open>cmyk\<close> is the flag the read computed.
\<close>

definition expand_rgba ::
  "Env \<Rightarrow> BASETYPE \<Rightarrow> Image \<Rightarrow> bool \<Rightarrow> nat \<Rightarrow> nat \<Rightarrow> sample list \<Rightarrow> sample list" where
  "expand_rgba env FileFormat img cmyk num_pixels components pixels =
     (let one = util_image_cast_from_float env FileFormat (Fin 1);
          pixels =
            (if cmyk then
               cmyk_to_rgba
                 (\<lambda>c k. util_image_cast_from_float env FileFormat
                    (float_mul env
                       (float_sub env (Fin 1) (util_image_cast_to_float env c))
                       (float_sub env (Fin 1) (util_image_cast_to_float env k))))
                 one num_pixels pixels
             else if components = 2 then gray_alpha_to_rgba num_pixels pixels
             else if components = 3 then rgb_to_rgba one num_pixels pixels
             else if components = 1 then gray_to_rgba one num_pixels pixels
             else pixels)
      in
      if img_alpha_type img = IMAGE_ALPHA_IGNORE
      then disable_alpha one num_pixels pixels else pixels)"

text \<open>
  The block \<open>if (is_rgba) { ... }\<close> as a whole: after the expansion, the conversion to
  scene linear for a colorspace that is neither raw nor sRGB.
\<close>

definition expand_pixels ::
  "Env \<Rightarrow> BASETYPE \<Rightarrow> Image \<Rightarrow> ImageDataType \<Rightarrow> bool \<Rightarrow> nat \<Rightarrow> nat \<Rightarrow> nat \<Rightarrow> nat \<Rightarrow>
   sample list \<Rightarrow> sample list" where
  "expand_pixels env FileFormat img type cmyk width height depth components pixels =
     (if is_rgba_type type then
        let pixels = expand_rgba env FileFormat img cmyk (width * height * depth) components pixels
        in
        if md_colorspace (img_metadata img) \<noteq> u_colorspace_raw env \<and>
           md_colorspace (img_metadata img) \<noteq> u_colorspace_srgb env
        then to_scene_linear env (md_colorspace (img_metadata img)) pixels
               width height depth (md_compress_as_srgb (img_metadata img))
        else pixels
      else pixels)"

text \<open>
  The block "make sure we don't have buggy values" of \<open>file_load_image\<close>: the finite
  guard, which runs for a float file format only.
\<close>

definition finite_guard :: "BASETYPE \<Rightarrow> ImageDataType \<Rightarrow> nat \<Rightarrow> sample list \<Rightarrow> sample list" where
  "finite_guard FileFormat type num_pixels pixels =
     (if FileFormat = TD_FLOAT then
        (if is_rgba_type type
         then finite_guard_rgba isfinite (storage_zero FileFormat) num_pixels 0 pixels
         else finite_guard_single isfinite (storage_zero FileFormat) num_pixels 0 pixels)
      else pixels)"

text \<open>The part of \<open>file_load_image\<close> between the read and the downscale.\<close>

definition normalize_pixels ::
  "Env \<Rightarrow> BASETYPE \<Rightarrow> Image \<Rightarrow> ImageDataType \<Rightarrow> bool \<Rightarrow> nat \<Rightarrow> nat \<Rightarrow> nat \<Rightarrow> nat \<Rightarrow>
   sample list \<Rightarrow> sample list" where
  "normalize_pixels env FileFormat img type cmyk width height depth components pixels =
     finite_guard FileFormat type (width * height * depth)
       (expand_pixels env FileFormat img type cmyk width height depth components pixels)"

subsection \<open>The loader\<close>

text \<open>
  The device as the loader sees it: its type, whether an allocation of a number of
  elements returns memory, and the table of texture handles of the external texture
  system (\<open>OIIOGlobals::textures\<close>), absent when \<open>oiio_memory()\<close> is \<open>NULL\<close>.
\<close>

datatype TexInterp = InterpSmartBicubic | InterpBicubic | InterpBilinear | InterpClosest

datatype TexWrap = WrapBlack | WrapClamp | WrapPeriodic

record OIIOTexture =
  tex_handle :: "nat option"
  tex_interpolation :: TexInterp
  tex_extension :: TexWrap
  tex_is_linear :: bool

record Device =
  dev_is_cuda :: bool
  dev_alloc_ok :: "nat \<Rightarrow> bool"
  dev_oiio_textures :: "OIIOTexture list option"
  dev_oiio_default :: OIIOTexture

record SceneParams =
  sp_texture_limit :: int
  sp_use_custom_cache_path :: bool
  sp_custom_cache_path :: string
  sp_auto_convert :: bool

definition image_associate_alpha :: "Env \<Rightarrow> Image \<Rightarrow> bool" where
  "image_associate_alpha env img =
     (\<not> (colorspace_is_data env (img_colorspace img) \<or>
         img_alpha_type img = IMAGE_ALPHA_IGNORE \<or>
         img_alpha_type img = IMAGE_ALPHA_CHANNEL_PACKED))"

text \<open>
  \<open>ImageManager::file_load_image_generic\<close>: \<open>None\<close> when it returns false, otherwise
  whether it leaves an open reader in \<open>*in\<close>.
\<close>

definition file_load_image_generic :: "Env \<Rightarrow> Image \<Rightarrow> bool option" where
  "file_load_image_generic env img =
     (if img_filename img = [] then None
      else
        let opened =
          (if img_builtin_data img \<noteq> 0 then
             (if builtin_image_info_cb env = None \<or> builtin_image_pixels_cb env = None
              then None else Some False)
           else if with_openvdb env \<and> string_endswith (img_filename img) ''.vdb'' then
             (if \<not> path_exists env (img_filename img) \<or> path_is_directory env (img_filename img)
              then None
              else if \<not> openvdb_has_grid env (img_filename img) (img_grid_name img) then None
              else Some False)
           else
             (if \<not> path_exists env (img_filename img) \<or> path_is_directory env (img_filename img)
              then None
              else if \<not> ImageInput_create env (img_filename img) then None
              else if \<not> ImageInput_open_config env (img_filename img)
                         (\<not> image_associate_alpha env img)
              then None
              else Some True))
        in
        case opened of
          None \<Rightarrow> None
        | Some in_open \<Rightarrow>
            if \<not> (md_channels (img_metadata img) \<ge> 1 \<and> md_channels (img_metadata img) \<le> 4)
            then None else Some in_open)"

text \<open>
  \<open>new device_vector<DeviceType>(device, name, MEM_TEXTURE)\<close>. The class is declared in
  \<open>device/device_memory.h\<close>; a new vector holds no data.
\<close>

definition new_device_vector :: "string \<Rightarrow> device_memory" where
  "new_device_vector name =
     \<lparr>mem_name = name, mem_data_width = 0, mem_data_height = 0, mem_data_depth = 0,
      mem_pixels = [], mem_interpolation = INTERPOLATION_NONE,
      mem_extension = EXTENSION_REPEAT, mem_grid_type = IMAGE_GRID_TYPE_DEFAULT,
      mem_grid_info = None, mem_dense_width = 0, mem_dense_height = 0, mem_dense_depth = 0\<rparr>"

text \<open>
  Modelled from the spec: the macros \<open>TEX_IMAGE_MISSING_R, _G, _B, _A\<close> of
  \<open>util/util_texture.h\<close>; the spec gives the placeholder as R=1, G=0, B=1, A=1.
\<close>

definition TEX_IMAGE_MISSING_R :: int where "TEX_IMAGE_MISSING_R = 1"
definition TEX_IMAGE_MISSING_G :: int where "TEX_IMAGE_MISSING_G = 0"
definition TEX_IMAGE_MISSING_B :: int where "TEX_IMAGE_MISSING_B = 1"
definition TEX_IMAGE_MISSING_A :: int where "TEX_IMAGE_MISSING_A = 1"

text \<open>The pixel that \<open>file_load_failed\<close> writes, by type.\<close>

fun missing_pixel :: "Env \<Rightarrow> ImageDataType \<Rightarrow> sample list" where
  "missing_pixel env IMAGE_DATA_TYPE_FLOAT4 =
     [SFloat (Fin (real_of_int TEX_IMAGE_MISSING_R)), SFloat (Fin (real_of_int TEX_IMAGE_MISSING_G)),
      SFloat (Fin (real_of_int TEX_IMAGE_MISSING_B)), SFloat (Fin (real_of_int TEX_IMAGE_MISSING_A))]"
| "missing_pixel env IMAGE_DATA_TYPE_FLOAT = [SFloat (Fin (real_of_int TEX_IMAGE_MISSING_R))]"
| "missing_pixel env IMAGE_DATA_TYPE_BYTE4 =
     [SByte (word_of_int (TEX_IMAGE_MISSING_R * 255)), SByte (word_of_int (TEX_IMAGE_MISSING_G * 255)),
      SByte (word_of_int (TEX_IMAGE_MISSING_B * 255)), SByte (word_of_int (TEX_IMAGE_MISSING_A * 255))]"
| "missing_pixel env IMAGE_DATA_TYPE_BYTE = [SByte (word_of_int (TEX_IMAGE_MISSING_R * 255))]"
| "missing_pixel env IMAGE_DATA_TYPE_HALF4 =
     [SHalf (half_of_int env TEX_IMAGE_MISSING_R), SHalf (half_of_int env TEX_IMAGE_MISSING_G),
      SHalf (half_of_int env TEX_IMAGE_MISSING_B), SHalf (half_of_int env TEX_IMAGE_MISSING_A)]"
| "missing_pixel env IMAGE_DATA_TYPE_HALF = [SHalf (half_of_int env TEX_IMAGE_MISSING_R)]"
| "missing_pixel env IMAGE_DATA_TYPE_USHORT4 =
     [SUShort (word_of_int (TEX_IMAGE_MISSING_R * 65535)), SUShort (word_of_int (TEX_IMAGE_MISSING_G * 65535)),
      SUShort (word_of_int (TEX_IMAGE_MISSING_B * 65535)), SUShort (word_of_int (TEX_IMAGE_MISSING_A * 65535))]"
| "missing_pixel env IMAGE_DATA_TYPE_USHORT = [SUShort (word_of_int (TEX_IMAGE_MISSING_R * 65535))]"

text \<open>
  \<open>ImageManager::file_load_failed\<close>: a 1x1 image (\<open>alloc(1, 1)\<close>) stored in the record.
  The source uses the result of this allocation unchecked.
\<close>

definition file_load_failed :: "Env \<Rightarrow> Image \<Rightarrow> ImageDataType \<Rightarrow> device_memory \<Rightarrow> Image" where
  "file_load_failed env img type tex_img =
     img\<lparr>img_mem := Some (tex_img\<lparr>mem_data_width := 1, mem_data_height := 1, mem_data_depth := 0,
                                  mem_pixels := missing_pixel env type,
                                  mem_interpolation := img_interpolation img,
                                  mem_extension := img_extension img,
                                  mem_grid_type := IMAGE_GRID_TYPE_DEFAULT\<rparr>)\<rparr>"

text \<open>
  \<open>ImageManager::allocate_grid_info\<close>: \<open>None\<close> when the allocation of the info vector
  returns \<open>NULL\<close>.
\<close>

definition allocate_grid_info :: "Device \<Rightarrow> device_memory \<Rightarrow> int list \<Rightarrow> device_memory option" where
  "allocate_grid_info dev tex_img sparse_index =
     (if \<not> dev_alloc_ok dev (length sparse_index) then None
      else Some (tex_img\<lparr>mem_grid_info := Some sparse_index\<rparr>))"

text \<open>
  \<open>ImageManager::file_load_extern_vdb\<close> (built with \<open>WITH_OPENVDB\<close>).
\<close>

definition file_load_extern_vdb :: "Env \<Rightarrow> Device \<Rightarrow> Image \<Rightarrow> ImageDataType \<Rightarrow> Image" where
  "file_load_extern_vdb env dev img type =
     (let tex_img = new_device_vector (img_mem_name img) in
      case file_load_image_generic env img of
        None \<Rightarrow> file_load_failed env img type tex_img
      | Some _ \<Rightarrow>
          let use_pad = dev_is_cuda dev;
              (sparse_offsets, sparse_size) =
                 openvdb_load_preprocess env (img_filename img) (img_grid_name img)
                   (img_isovalue img) use_pad;
              (tex_img, elements) =
                 (if use_pad \<and> sparse_size > - 1 then
                    let width = nat (sparse_size div
                          int (PADDED_TILE env * PADDED_TILE env *
                               (if type = IMAGE_DATA_TYPE_FLOAT4 then 4 else 1)))
                    in (tex_img\<lparr>mem_grid_type := IMAGE_GRID_TYPE_SPARSE_PAD,
                                 mem_data_width := width, mem_data_height := PADDED_TILE env,
                                 mem_data_depth := PADDED_TILE env\<rparr>,
                        width * PADDED_TILE env * PADDED_TILE env)
                  else if sparse_size > - 1 then
                    (tex_img\<lparr>mem_grid_type := IMAGE_GRID_TYPE_SPARSE,
                              mem_data_width := nat sparse_size, mem_data_height := 0,
                              mem_data_depth := 0\<rparr>,
                     nat sparse_size)
                  else
                    (tex_img\<lparr>mem_grid_type := IMAGE_GRID_TYPE_DEFAULT,
                              mem_data_width := nat (md_width (img_metadata img)),
                              mem_data_height := nat (md_height (img_metadata img)),
                              mem_data_depth := nat (md_depth (img_metadata img))\<rparr>,
                     nat (md_width (img_metadata img)) * nat (md_height (img_metadata img)) *
                     nat (md_depth (img_metadata img))))
          in
          if \<not> dev_alloc_ok dev elements then file_load_failed env img type tex_img
          else
            let tex_img = tex_img\<lparr>mem_pixels :=
                  openvdb_load_image env (img_filename img) (img_grid_name img)
                    sparse_offsets sparse_size use_pad\<rparr>;
                stored = (\<lambda>tex_img.
                  img\<lparr>img_mem := Some (tex_img\<lparr>
                        mem_dense_width := md_width (img_metadata img),
                        mem_dense_height := md_height (img_metadata img),
                        mem_dense_depth := md_depth (img_metadata img),
                        mem_interpolation := img_interpolation img,
                        mem_extension := img_extension img\<rparr>)\<rparr>)
            in
            if sparse_size > - 1 then
              (case allocate_grid_info dev tex_img sparse_offsets of
                 None \<Rightarrow> file_load_failed env img type tex_img
               | Some tex_img \<Rightarrow> stored tex_img)
            else stored tex_img)"

text \<open>
  The conversion of an unsigned integer to \<open>float\<close>: the nearest number with a
  significand of 24 bits, a tie going to the even significand. The result is an integer
  again. \<open>bit_length n\<close> is the number of binary digits of \<open>n\<close>.
\<close>

function bit_length :: "nat \<Rightarrow> nat" where
  "bit_length n = (if n = 0 then 0 else Suc (bit_length (n div 2)))"
  by pat_completeness auto
termination
  by (relation "measure id") auto

definition to_float :: "nat \<Rightarrow> nat" where
  "to_float n =
     (let e = bit_length n - 24;
          q = n div 2 ^ e;
          r = n mod 2 ^ e
      in if 2 ^ e < 2 * r \<or> (2 * r = 2 ^ e \<and> odd q) then (q + 1) * 2 ^ e else q * 2 ^ e)"

text \<open>
  The loop \<open>while (max_size * scale_factor > texture_limit) scale_factor *= 0.5f\<close>, as
  the number of halvings. The comparison is one of floats: \<open>max_size\<close> and \<open>limit\<close>
  below are the values of \<open>(float)max_size\<close> and \<open>(float)texture_limit\<close>. The products by
  \<open>0.5 ^ k\<close> are exact, so \<open>max_size * 0.5 ^ k > limit\<close> is \<open>max_size > limit * 2 ^ k\<close>.
  The loop is reached with a positive limit only.
\<close>

function scale_halvings :: "nat \<Rightarrow> nat \<Rightarrow> nat \<Rightarrow> nat" where
  "scale_halvings max_size limit k =
     (if 0 < limit \<and> limit * 2 ^ k < max_size
      then scale_halvings max_size limit (Suc k) else k)"
  by pat_completeness auto
termination
  by (relation "measure (\<lambda>(max_size, limit, k). max_size - limit * 2 ^ k)")
     (auto intro!: diff_less_mono2)

text \<open>What a read leaves in a buffer of \<open>n\<close> scalars: the data, then memory nobody wrote.\<close>

definition fill_buffer :: "Env \<Rightarrow> nat \<Rightarrow> sample list \<Rightarrow> sample list" where
  "fill_buffer env n data = take n data @ replicate (n - length data) (uninitialized env)"

text \<open>
  The block "read pixels" of \<open>file_load_image\<close>, into a buffer of \<open>buffer_size\<close>
  scalars: through the reader when \<open>file_load_image_generic\<close> left one open, else
  through the builtin callbacks. The result is the flag \<open>cmyk\<close> and the buffer.
\<close>

definition read_pixels ::
  "Env \<Rightarrow> BASETYPE \<Rightarrow> Image \<Rightarrow> bool \<Rightarrow> nat \<Rightarrow> nat \<Rightarrow> nat \<Rightarrow> nat \<Rightarrow> nat \<Rightarrow>
   bool \<times> sample list" where
  "read_pixels env FileFormat img in_open buffer_size width height depth components =
     (let num_pixels = width * height * depth in
      if in_open then
        let data = read_image env (img_filename img) FileFormat
                     (\<not> image_associate_alpha env img);
            pixels =
              (if components > 4
               then scatter_first_four components (width * height)
                      (fill_buffer env (width * height * components) data)
                      (replicate buffer_size (uninitialized env))
               else fill_buffer env buffer_size (take (num_pixels * components) data))
        in (format_name env (img_filename img) = ''jpeg'' \<and> components = 4, pixels)
      else if FileFormat = TD_FLOAT then
        (False, fill_buffer env buffer_size
           (take (num_pixels * components)
              (builtin_image_float_pixels_cb env (img_filename img)
                 (img_builtin_data img) (image_associate_alpha env img))))
      else if FileFormat = UINT8 then
        (False, fill_buffer env buffer_size
           (take (num_pixels * components)
              (case builtin_image_pixels_cb env of
                 None \<Rightarrow> []
               | Some cb \<Rightarrow> cb (img_filename img) (img_builtin_data img)
                             (image_associate_alpha env img))))
      else (False, replicate buffer_size (uninitialized env)))"

text \<open>
  The pixels of \<open>file_load_image\<close> from the read to "scale image down if needed": the
  buffer and the dimensions it has then. \<open>staging\<close> says that the pixels were read into
  \<open>pixels_storage\<close> because a texture limit applies. The vector \<open>scaled_pixels\<close> is
  local to the block that scales, and \<open>pixels\<close> points into it when the block ends: what
  the loader reads through \<open>pixels\<close> afterwards is \<open>freed_memory\<close>.
\<close>

definition load_pixels ::
  "Env \<Rightarrow> BASETYPE \<Rightarrow> Image \<Rightarrow> ImageDataType \<Rightarrow> int \<Rightarrow> bool \<Rightarrow> bool \<Rightarrow>
   sample list \<times> nat \<times> nat \<times> nat" where
  "load_pixels env FileFormat img type texture_limit in_open staging =
     (let width = nat (md_width (img_metadata img));
          height = nat (md_height (img_metadata img));
          depth = nat (md_depth (img_metadata img));
          components = nat (md_channels (img_metadata img));
          max_size = max (max width height) depth;
          num_pixels = width * height * depth;
          is_rgba = is_rgba_type type;
          buffer_size = (if staging \<or> is_rgba then num_pixels * 4 else num_pixels);
          (cmyk, pixels) = read_pixels env FileFormat img in_open buffer_size
                             width height depth components;
          pixels = normalize_pixels env FileFormat img type cmyk width height depth
                     components pixels
      in
      if staging \<and> num_pixels * 4 > 0
      then
        let (scaled_pixels, scaled_width, scaled_height, scaled_depth) =
              util_image_resize_pixels env pixels width height depth
                (if is_rgba then 4 else 1)
                (scale_halvings (to_float max_size) (to_float (nat texture_limit)) 0)
        in (freed_memory env scaled_pixels, scaled_width, scaled_height, scaled_depth)
      else (pixels, width, height, depth))"

text \<open>
  The block "compress image if needed" of \<open>file_load_image\<close>: \<open>None\<close> when the
  allocation of the grid info fails; else the pixels, the texture and the sparse
  resolution, which stays (-1, -1, -1) when the image is not compressed. The vector
  \<open>sparse_pixels\<close> is local to the block, and \<open>pixels\<close> points into it when the block
  ends: what the loader reads through \<open>pixels\<close> afterwards is \<open>freed_memory\<close>.
\<close>

definition compress_volume ::
  "Env \<Rightarrow> Device \<Rightarrow> Image \<Rightarrow> device_memory \<Rightarrow> sample list \<Rightarrow> nat \<Rightarrow> nat \<Rightarrow> nat \<Rightarrow> nat \<Rightarrow>
   (sample list \<times> device_memory \<times> int \<times> int \<times> int) option" where
  "compress_volume env dev img tex_img pixels width height depth components =
     (if img_is_volume img then
        (if dev_is_cuda dev then
           (case create_sparse_grid_pad env pixels width height depth components
                   (img_filename img) (img_isovalue img) of
              None \<Rightarrow> Some (pixels, tex_img, - 1, - 1, - 1)
            | Some (sparse_pixels, sparse_offsets, rx, ry, rz) \<Rightarrow>
                (case allocate_grid_info dev tex_img sparse_offsets of
                   None \<Rightarrow> None
                 | Some tex_img \<Rightarrow>
                     Some (freed_memory env sparse_pixels,
                           tex_img\<lparr>mem_grid_type := IMAGE_GRID_TYPE_SPARSE_PAD\<rparr>,
                           rx, ry, rz)))
         else
           (case create_sparse_grid env pixels width height depth components
                   (img_filename img) (img_isovalue img) of
              None \<Rightarrow> Some (pixels, tex_img, - 1, - 1, - 1)
            | Some (sparse_pixels, sparse_offsets) \<Rightarrow>
                (case allocate_grid_info dev tex_img sparse_offsets of
                   None \<Rightarrow> None
                 | Some tex_img \<Rightarrow>
                     Some (freed_memory env sparse_pixels,
                           tex_img\<lparr>mem_grid_type := IMAGE_GRID_TYPE_SPARSE\<rparr>,
                           int (length sparse_pixels div components), 1, 1))))
      else Some (pixels, tex_img, - 1, - 1, - 1))"

text \<open>
  \<open>ImageManager::file_load_image<FileFormat, StorageType, DeviceType>\<close>: the returned
  flag and the record afterwards. The storage type is the one of the file format and
  the device type is the one of \<open>type\<close>, as in every instantiation of
  \<open>device_load_image\<close>. The dimensions of the metadata are taken as natural numbers, and
  a buffer for \<open>width * height * depth\<close> device elements holds four scalars per element
  for an RGBA type. The allocation under "Store image" is used unchecked by the source.
  Its \<open>memcpy\<close> reads through \<open>pixels\<close>: the buffer of the read when the image was
  neither scaled nor compressed, and the memory of a destroyed vector otherwise
  (\<open>load_pixels\<close>, \<open>compress_volume\<close>), where the behaviour of the source is undefined.
\<close>

definition file_load_image ::
  "Env \<Rightarrow> Device \<Rightarrow> BASETYPE \<Rightarrow> Image \<Rightarrow> ImageDataType \<Rightarrow> int \<Rightarrow> bool \<times> Image" where
  "file_load_image env dev FileFormat img type texture_limit =
     (case file_load_image_generic env img of
        None \<Rightarrow> (False, img)
      | Some in_open \<Rightarrow>
          let tex_img = (new_device_vector (img_mem_name img))\<lparr>
                mem_grid_type := IMAGE_GRID_TYPE_DEFAULT,
                mem_interpolation := img_interpolation img,
                mem_extension := img_extension img\<rparr>;
              width = nat (md_width (img_metadata img));
              height = nat (md_height (img_metadata img));
              depth = nat (md_depth (img_metadata img));
              components = nat (md_channels (img_metadata img));
              max_size = max (max width height) depth
          in
          if max_size = 0 then (False, img)
          else
            let staging = (texture_limit > 0 \<and> int max_size > texture_limit) in
            if \<not> staging \<and> \<not> dev_alloc_ok dev (width * height * depth) then (False, img)
            else
              let (pixels, width, height, depth) =
                    load_pixels env FileFormat img type texture_limit in_open staging
              in
              case compress_volume env dev img tex_img pixels width height depth components of
                None \<Rightarrow> (False, file_load_failed env img type tex_img)
              | Some (pixels, tex_img, rx, ry, rz) \<Rightarrow>
                  let (dw, dh, dd) = (if rx > - 1 then (nat rx, nat ry, nat rz)
                                      else (width, height, depth));
                      tex_img = tex_img\<lparr>
                        mem_data_width := dw, mem_data_height := dh, mem_data_depth := dd,
                        mem_pixels := take (dw * dh * dd * (if is_rgba_type type then 4 else 1))
                                        pixels,
                        mem_dense_width := int width, mem_dense_height := int height,
                        mem_dense_depth := int depth\<rparr>
                  in (True, img\<lparr>img_mem := Some tex_img\<rparr>))"

subsection \<open>Loading and freeing on the device\<close>

fun name_from_type :: "ImageDataType \<Rightarrow> string" where
  "name_from_type IMAGE_DATA_TYPE_FLOAT4 = ''float4''"
| "name_from_type IMAGE_DATA_TYPE_BYTE4 = ''byte4''"
| "name_from_type IMAGE_DATA_TYPE_HALF4 = ''half4''"
| "name_from_type IMAGE_DATA_TYPE_FLOAT = ''float''"
| "name_from_type IMAGE_DATA_TYPE_BYTE = ''byte''"
| "name_from_type IMAGE_DATA_TYPE_HALF = ''half''"
| "name_from_type IMAGE_DATA_TYPE_USHORT4 = ''ushort4''"
| "name_from_type IMAGE_DATA_TYPE_USHORT = ''ushort''"

text \<open>\<open>%03d\<close> of \<open>string_printf\<close>: decimal digits, padded with zeros to three characters.\<close>

function decimal :: "nat \<Rightarrow> string" where
  "decimal n = (if n < 10 then [char_of (48 + n)]
                else decimal (n div 10) @ [char_of (48 + n mod 10)])"
  by pat_completeness auto
termination
  by (relation "measure id") auto

definition printf_03d :: "int \<Rightarrow> string" where
  "printf_03d i =
     (if i < 0 then
        let d = decimal (nat (- i)) in CHR ''-'' # replicate (2 - length d) CHR ''0'' @ d
      else
        let d = decimal (nat i) in replicate (3 - length d) CHR ''0'' @ d)"

text \<open>\<open>string::rfind\<close> of one character: the last position, \<open>None\<close> for \<open>npos\<close>.\<close>

definition rfind :: "char \<Rightarrow> string \<Rightarrow> nat option" where
  "rfind c s =
     (if c \<in> set s then Some (length s - 1 - length (takeWhile (\<lambda>x. x \<noteq> c) (rev s)))
      else None)"

text \<open>\<open>ImageManager::make_tx\<close>: the attributes handed to \<open>ImageBufAlgo::make_texture\<close>.\<close>

definition make_tx :: "Env \<Rightarrow> string \<Rightarrow> string \<Rightarrow> string \<Rightarrow> ExtensionType \<Rightarrow> bool" where
  "make_tx env filename outputfilename colorspace extension =
     (let config =
            [(''maketx:filtername'', AttrStr ''lanczos3''),
             (''maketx:opaque_detect'', AttrInt 1),
             (''maketx:highlightcomp'', AttrInt 1),
             (''maketx:oiio_options'', AttrInt 1),
             (''maketx:updatemode'', AttrInt 1)];
          config = config @
            (case extension of
               EXTENSION_CLIP \<Rightarrow> [(''maketx:wrap'', AttrStr ''black'')]
             | EXTENSION_REPEAT \<Rightarrow> [(''maketx:wrap'', AttrStr ''periodic'')]
             | EXTENSION_EXTEND \<Rightarrow> [(''maketx:wrap'', AttrStr ''clamp'')]);
          config = config @
            (if colorspace \<noteq> u_colorspace_raw env then
               (if colorspace = u_colorspace_srgb env \<or> colorspace = []
                then [(''maketx:incolorspace'', AttrStr ''sRGB'')]
                else [(''maketx:incolorspace'', AttrStr colorspace)]) @
               [(''maketx:outcolorspace'', AttrStr ''linear'')]
             else [])
      in make_texture env filename outputfilename config)"

text \<open>
  \<open>ImageManager::get_tx\<close>: the returned flag and the record, whose file name becomes
  the name of the mip-mapped file when there is one.
\<close>

definition get_tx :: "Env \<Rightarrow> Image \<Rightarrow> bool \<Rightarrow> string option \<Rightarrow> bool \<times> Image" where
  "get_tx env img convert cache_path =
     (if \<not> path_exists env (img_filename img) then (False, img)
      else
        let idx = rfind CHR ''.'' (img_filename img) in
        if (case idx of None \<Rightarrow> False
            | Some k \<Rightarrow> drop (k + 1) (img_filename img) = ''tx'')
        then (True, img)
        else
          let tx_name = (case idx of None \<Rightarrow> img_filename img
                         | Some k \<Rightarrow> take k (img_filename img)) @ ''.tx'';
              tx_name = (case cache_path of None \<Rightarrow> tx_name
                         | Some dir \<Rightarrow> path_join env dir (path_filename env tx_name))
          in
          if path_exists env tx_name then (True, img\<lparr>img_filename := tx_name\<rparr>)
          else if convert \<and>
                  make_tx env (img_filename img) tx_name (md_colorspace (img_metadata img))
                    (img_extension img)
          then (True, img\<lparr>img_filename := tx_name\<rparr>)
          else (False, img))"

text \<open>
  The branch of \<open>device_load_image\<close> for the external texture system
  (\<open>oiio_texture_system && !img->builtin_data\<close>), up to the assignment of \<open>need_load\<close>:
  the record, whose file name may become that of the mip-mapped file, and the device with
  the texture handle stored in its table.
\<close>

definition device_load_oiio ::
  "Env \<Rightarrow> SceneParams \<Rightarrow> ImageDataType \<Rightarrow> nat \<Rightarrow> Image \<Rightarrow> Device \<Rightarrow> Image \<times> Device" where
  "device_load_oiio env scene type slot img dev =
     (let cache_path = (if sp_use_custom_cache_path scene
                        then Some (sp_custom_cache_path scene) else None);
          (have_mip, img) = get_tx env img (sp_auto_convert scene) cache_path;
          dev =
            (case dev_oiio_textures dev of
               None \<Rightarrow> dev
             | Some textures \<Rightarrow>
                 let flat_slot = unat (type_index_to_flattened_slot slot type);
                     textures =
                       (if length textures \<le> flat_slot
                        then textures @ replicate (flat_slot + 1 - length textures)
                                          (dev_oiio_default dev)
                        else textures);
                     handle = get_texture_handle env (img_filename img);
                     entry = textures ! flat_slot;
                     entry =
                       (if texture_handle_good env handle then
                          entry\<lparr>tex_handle := Some handle,
                                tex_interpolation :=
                                  (case img_interpolation img of
                                     INTERPOLATION_SMART \<Rightarrow> InterpSmartBicubic
                                   | INTERPOLATION_CUBIC \<Rightarrow> InterpBicubic
                                   | INTERPOLATION_LINEAR \<Rightarrow> InterpBilinear
                                   | _ \<Rightarrow> InterpClosest),
                                tex_extension :=
                                  (case img_extension img of
                                     EXTENSION_CLIP \<Rightarrow> WrapBlack
                                   | EXTENSION_EXTEND \<Rightarrow> WrapClamp
                                   | EXTENSION_REPEAT \<Rightarrow> WrapPeriodic),
                                tex_is_linear := have_mip\<rparr>
                        else entry\<lparr>tex_handle := None\<rparr>)
                 in dev\<lparr>dev_oiio_textures := Some (textures[flat_slot := entry])\<rparr>)
      in (img, dev))"

text \<open>
  The rest of \<open>device_load_image\<close>, up to the assignment of \<open>need_load\<close>: the name of
  the buffer, the previous buffer freed, and the loader for the type. The value the
  loader returns is not used by the source.
\<close>

definition device_load_file ::
  "Env \<Rightarrow> SceneParams \<Rightarrow> Device \<Rightarrow> ImageDataType \<Rightarrow> nat \<Rightarrow> Image \<Rightarrow> Image" where
  "device_load_file env scene dev type slot img =
     (let flat_slot = type_index_to_flattened_slot slot type;
          img = img\<lparr>img_mem_name :=
                  ''__tex_image_'' @ name_from_type type @ ''_'' @ printf_03d (sint flat_slot)\<rparr>;
          img = img\<lparr>img_mem := None\<rparr>;
          is_extern_vdb = string_endswith (img_filename img) ''.vdb'';
          limit = sp_texture_limit scene
      in
      case type of
        IMAGE_DATA_TYPE_FLOAT4 \<Rightarrow>
          if with_openvdb env \<and> is_extern_vdb
          then file_load_extern_vdb env dev img type
          else snd (file_load_image env dev TD_FLOAT img type limit)
      | IMAGE_DATA_TYPE_FLOAT \<Rightarrow>
          if with_openvdb env \<and> is_extern_vdb
          then file_load_extern_vdb env dev img type
          else snd (file_load_image env dev TD_FLOAT img type limit)
      | IMAGE_DATA_TYPE_BYTE4 \<Rightarrow> snd (file_load_image env dev UINT8 img type limit)
      | IMAGE_DATA_TYPE_BYTE \<Rightarrow> snd (file_load_image env dev UINT8 img type limit)
      | IMAGE_DATA_TYPE_HALF4 \<Rightarrow> snd (file_load_image env dev TD_HALF img type limit)
      | IMAGE_DATA_TYPE_HALF \<Rightarrow> snd (file_load_image env dev TD_HALF img type limit)
      | IMAGE_DATA_TYPE_USHORT4 \<Rightarrow> snd (file_load_image env dev USHORT img type limit)
      | IMAGE_DATA_TYPE_USHORT \<Rightarrow> snd (file_load_image env dev USHORT img type limit))"

text \<open>
  \<open>ImageManager::device_load_image\<close>. \<open>cancel\<close> is what \<open>progress->get_cancel()\<close>
  returns at the entry of the loader. The source reads \<open>images[type][slot]\<close> unchecked;
  a slot outside the vector is treated like an empty one.
\<close>

definition device_load_image ::
  "Env \<Rightarrow> SceneParams \<Rightarrow> bool \<Rightarrow> ImageDataType \<Rightarrow> nat \<Rightarrow> ImageManager \<times> Device \<Rightarrow>
   ImageManager \<times> Device" where
  "device_load_image env scene cancel type slot st =
     (let (mgr, dev) = st in
      if cancel then (mgr, dev)
      else
        case (if slot < length (images mgr type) then images mgr type ! slot else None) of
          None \<Rightarrow> (mgr, dev)
        | Some img \<Rightarrow>
            let (img, dev) =
                  (if oiio_texture_system mgr \<and> img_builtin_data img = 0
                   then device_load_oiio env scene type slot img dev
                   else (device_load_file env scene dev type slot img, dev))
            in (mgr\<lparr>images := (images mgr)(type :=
                       (images mgr type)[slot := Some (img\<lparr>img_need_load := False\<rparr>)])\<rparr>,
                dev))"

text \<open>\<open>ImageManager::device_free_image\<close>: the record and its buffers are deleted.\<close>

definition device_free_image :: "ImageManager \<Rightarrow> ImageDataType \<Rightarrow> nat \<Rightarrow> ImageManager" where
  "device_free_image mgr type slot =
     (case (if slot < length (images mgr type) then images mgr type ! slot else None) of
        None \<Rightarrow> mgr
      | Some img \<Rightarrow>
          mgr\<lparr>images := (images mgr)(type := (images mgr type)[slot := None]),
              tex_num_images := (tex_num_images mgr)(type := tex_num_images mgr type - 1)\<rparr>)"

text \<open>
  The body of the two loops of \<open>device_update\<close> for one slot. A loader pushed to the
  task pool touches its own record and the device only, so the model runs it where it is
  pushed; \<open>pool.wait_work()\<close> returns when all of them are done.
\<close>

definition device_update_step ::
  "Env \<Rightarrow> SceneParams \<Rightarrow> (ImageDataType \<Rightarrow> nat \<Rightarrow> bool) \<Rightarrow> ImageDataType \<Rightarrow> nat \<Rightarrow>
   ImageManager \<times> Device \<Rightarrow> ImageManager \<times> Device" where
  "device_update_step env scene cancel type slot st =
     (let (mgr, dev) = st in
      case images mgr type ! slot of
        None \<Rightarrow> (mgr, dev)
      | Some img \<Rightarrow>
          if img_users img = 0 then (device_free_image mgr type slot, dev)
          else if img_need_load img
          then device_load_image env scene (cancel type slot) type slot (mgr, dev)
          else (mgr, dev))"

text \<open>
  The inner loop of \<open>device_update\<close>, over the slots of one type. No step changes
  the size of a vector, so the slots are those of the vector when the loop starts.
\<close>

definition device_update_type ::
  "Env \<Rightarrow> SceneParams \<Rightarrow> (ImageDataType \<Rightarrow> nat \<Rightarrow> bool) \<Rightarrow> ImageDataType \<Rightarrow>
   ImageManager \<times> Device \<Rightarrow> ImageManager \<times> Device" where
  "device_update_type env scene cancel type st =
     fold (device_update_step env scene cancel type) [0..<length (images (fst st) type)] st"

text \<open>
  \<open>ImageManager::device_update\<close>. \<open>cancel type slot\<close> is what the progress reports
  when the loader of that slot starts.
\<close>

definition device_update ::
  "Env \<Rightarrow> SceneParams \<Rightarrow> (ImageDataType \<Rightarrow> nat \<Rightarrow> bool) \<Rightarrow> ImageManager \<times> Device \<Rightarrow>
   ImageManager \<times> Device" where
  "device_update env scene cancel st =
     (if \<not> need_update (fst st) then st
      else
        let (mgr, dev) = fold (device_update_type env scene cancel) all_types st
        in (mgr\<lparr>need_update := False\<rparr>, dev))"

text \<open>
  \<open>ImageManager::device_update_slot\<close>: \<open>None\<close> where the source reads outside the
  vector or its assertion \<open>image != NULL\<close> fails.
\<close>

definition device_update_slot ::
  "Env \<Rightarrow> SceneParams \<Rightarrow> bool \<Rightarrow> 32 word \<Rightarrow> ImageManager \<times> Device \<Rightarrow>
   (ImageManager \<times> Device) option" where
  "device_update_slot env scene cancel flat_slot st =
     (let (mgr, dev) = st;
          (slot, type) = flattened_slot_to_type_index flat_slot
      in
      case image_at mgr type slot of
        None \<Rightarrow> None
      | Some None \<Rightarrow> None
      | Some (Some img) \<Rightarrow>
          if img_users img = 0 then Some (device_free_image mgr type (nat slot), dev)
          else if img_need_load img
          then Some (device_load_image env scene cancel type (nat slot) (mgr, dev))
          else Some (mgr, dev))"

text \<open>
  \<open>ImageManager::remove_image(int flat_slot)\<close>: \<open>None\<close> where the source reads outside
  the vector or its assertion \<open>image && image->users >= 1\<close> fails.
\<close>

definition remove_image :: "ImageManager \<Rightarrow> 32 word \<Rightarrow> ImageManager option" where
  "remove_image mgr flat_slot =
     (let (slot, type) = flattened_slot_to_type_index flat_slot in
      case image_at mgr type slot of
        None \<Rightarrow> None
      | Some None \<Rightarrow> None
      | Some (Some img) \<Rightarrow>
          if \<not> (img_users img \<ge> 1) then None
          else
            let img = img\<lparr>img_users := img_users img - 1\<rparr>;
                mgr = mgr\<lparr>images := (images mgr)(type := (images mgr type)[nat slot := Some img])\<rparr>
            in Some (if img_users img = 0 then mgr\<lparr>need_update := True\<rparr> else mgr))"

section \<open>The merge compositor (render/merge.cpp)\<close>

datatype MergeChannelOp =
  MERGE_CHANNEL_NOP | MERGE_CHANNEL_COPY | MERGE_CHANNEL_SUM | MERGE_CHANNEL_AVERAGE

record MergeImagePass =
  channel_name :: string
  pass_format :: BASETYPE
  op :: MergeChannelOp
  offset :: nat
  merge_offset :: nat

record MergeImageLayer =
  layer_name :: string
  passes :: "MergeImagePass list"
  samples :: int

text \<open>
  A \<open>MergeImage\<close>: the file path, the layers, and of the open reader what the merge
  uses: the size and channel count of its spec, and the floats \<open>read_image\<close> delivers
  (\<open>None\<close> when it fails). Pixel values are real numbers: float rounding is not modelled.
\<close>

record MergeImage =
  filepath :: string
  layers :: "MergeImageLayer list"
  in_width :: nat
  in_height :: nat
  in_nchannels :: nat
  in_pixels :: "real list option"

definition string_startswith :: "string \<Rightarrow> string \<Rightarrow> bool" where
  "string_startswith s start = (length start \<le> length s \<and> take (length start) s = start)"

definition parse_channel_operation :: "string \<Rightarrow> MergeChannelOp" where
  "parse_channel_operation pass_name =
     (if pass_name = ''Depth'' \<or> pass_name = ''IndexMA'' \<or> pass_name = ''IndexOB'' \<or>
         string_startswith pass_name ''Crypto''
      then MERGE_CHANNEL_COPY
      else if string_startswith pass_name ''Debug BVH'' \<or>
              string_startswith pass_name ''Debug Ray'' \<or>
              string_startswith pass_name ''Debug Render Time''
      then MERGE_CHANNEL_SUM
      else MERGE_CHANNEL_AVERAGE)"

text \<open>\<open>split_last_dot\<close>: \<open>None\<close> when there is no dot, else the part before and the suffix.\<close>

definition split_last_dot :: "string \<Rightarrow> (string \<times> string) option" where
  "split_last_dot s =
     (case rfind CHR ''.'' s of
        None \<Rightarrow> None
      | Some pos \<Rightarrow> Some (take pos s, drop (pos + 1) s))"

text \<open>\<open>parse_channel_name\<close>: \<open>None\<close> for false, else (renderlayer, pass, channel).\<close>

definition parse_channel_name :: "string \<Rightarrow> bool \<Rightarrow> (string \<times> string \<times> string) option" where
  "parse_channel_name name multiview_channels =
     (case split_last_dot name of
        None \<Rightarrow> None
      | Some (name, channel) \<Rightarrow>
          (case (if multiview_channels
                 then split_last_dot name else Some (name, [])) of
             None \<Rightarrow> None
           | Some (name, view) \<Rightarrow>
               (case split_last_dot name of
                  None \<Rightarrow> None
                | Some (name, pass) \<Rightarrow>
                    Some (if multiview_channels then name @ ''.'' @ view else name,
                          pass, channel))))"

text \<open>
  The body of the first loop of \<open>parse_channels\<close> for channel \<open>i\<close> of the file: the name
  of the layer the pass goes to, and the pass.
\<close>

definition parse_channels_pass ::
  "bool \<Rightarrow> BASETYPE \<Rightarrow> nat \<Rightarrow> string \<Rightarrow> string \<times> MergeImagePass" where
  "parse_channels_pass multiview_channels format i name =
     (case parse_channel_name name multiview_channels of
        Some (layername, passname, channelname) \<Rightarrow>
          (layername,
           \<lparr>channel_name = name, pass_format = format, op = parse_channel_operation passname,
            offset = i, merge_offset = i\<rparr>)
      | None \<Rightarrow>
          ([],
           \<lparr>channel_name = name, pass_format = format, op = parse_channel_operation name,
            offset = i, merge_offset = i\<rparr>))"

text \<open>
  The first loop of \<open>merge_channels_metadata\<close>, for one pass: the names of the output
  channels so far, their total samples, and the pass with its merge offset (and its
  operation, if a copy finds its channel taken).
\<close>

fun find_channel :: "string \<Rightarrow> string list \<Rightarrow> nat \<Rightarrow> nat option" where
  "find_channel name [] i = None"
| "find_channel name (c # cs) i = (if name = c then Some i else find_channel name cs (Suc i))"

definition merge_pass ::
  "int \<Rightarrow> MergeImagePass \<Rightarrow> (string list \<times> BASETYPE list) \<times> int list \<Rightarrow>
   MergeImagePass \<times> ((string list \<times> BASETYPE list) \<times> int list)" where
  "merge_pass layer_samples pass st =
     (let ((channelnames, channelformats), channel_total_samples) = st in
      case find_channel (channel_name pass) channelnames 0 of
        Some i \<Rightarrow>
          (pass\<lparr>merge_offset := i,
                op := (if op pass = MERGE_CHANNEL_COPY then MERGE_CHANNEL_NOP else op pass)\<rparr>,
           ((channelnames, channelformats),
            channel_total_samples[i := channel_total_samples ! i + layer_samples]))
      | None \<Rightarrow>
          (pass\<lparr>merge_offset := length channelnames\<rparr>,
           ((channelnames @ [channel_name pass], channelformats @ [pass_format pass]),
            channel_total_samples @ [layer_samples])))"

fun merge_passes ::
  "int \<Rightarrow> MergeImagePass list \<Rightarrow> (string list \<times> BASETYPE list) \<times> int list \<Rightarrow>
   MergeImagePass list \<times> ((string list \<times> BASETYPE list) \<times> int list)" where
  "merge_passes layer_samples [] st = ([], st)"
| "merge_passes layer_samples (pass # ps) st =
     (let (pass, st) = merge_pass layer_samples pass st;
          (ps, st) = merge_passes layer_samples ps st
      in (pass # ps, st))"

fun merge_layers ::
  "MergeImageLayer list \<Rightarrow> (string list \<times> BASETYPE list) \<times> int list \<Rightarrow>
   MergeImageLayer list \<times> ((string list \<times> BASETYPE list) \<times> int list)" where
  "merge_layers [] st = ([], st)"
| "merge_layers (layer # ls) st =
     (let (ps, st) = merge_passes (samples layer) (passes layer) st;
          (ls, st) = merge_layers ls st
      in (layer\<lparr>passes := ps\<rparr> # ls, st))"

fun merge_images ::
  "MergeImage list \<Rightarrow> (string list \<times> BASETYPE list) \<times> int list \<Rightarrow>
   MergeImage list \<times> ((string list \<times> BASETYPE list) \<times> int list)" where
  "merge_images [] st = ([], st)"
| "merge_images (img # imgs) st =
     (let (ls, st) = merge_layers (layers img) st;
          (imgs, st) = merge_images imgs st
      in (img\<lparr>layers := ls\<rparr> # imgs, st))"

text \<open>
  \<open>merge_channels_metadata\<close>, the part "merge channels and compute offsets": the images
  with their merge offsets, the channel names and formats of the output spec, and
  \<open>channel_total_samples\<close>, which \<open>run\<close> passes in empty. The second part of the function
  writes render times and sample counts into the attributes of the output spec, which no
  pixel depends on; it is not modelled.
\<close>

definition merge_channels_metadata ::
  "MergeImage list \<Rightarrow> MergeImage list \<times> (string list \<times> BASETYPE list) \<times> int list" where
  "merge_channels_metadata imgs = merge_images imgs (([], []), [])"

text \<open>
  One of the loops \<open>for (size_t i = 0; i < num_pixels; i += stride)\<close> of \<open>merge_pixels\<close>,
  storing \<open>f out_pixels[i + merge_offset] pixels[i + offset]\<close>. \<open>None\<close> when an index is
  outside its array, or when the stride is zero and the loop does not end.
\<close>

function merge_loop ::
  "(real \<Rightarrow> real \<Rightarrow> real) \<Rightarrow> nat \<Rightarrow> nat \<Rightarrow> nat \<Rightarrow> nat \<Rightarrow> nat \<Rightarrow> real list \<Rightarrow> real list \<Rightarrow>
   real list option" where
  "merge_loop f num_pixels stride off moff i pixels out_pixels =
     (if i < num_pixels then
        (if stride = 0 then None
         else if i + moff < length out_pixels \<and> i + off < length pixels
         then merge_loop f num_pixels stride off moff (i + stride) pixels
                (out_pixels[i + moff := f (out_pixels ! (i + moff)) (pixels ! (i + off))])
         else None)
      else Some out_pixels)"
  by pat_completeness auto
termination
  by (relation "measure (\<lambda>(f, num_pixels, stride, off, moff, i, pixels, out_pixels). num_pixels - i)")
     auto

text \<open>The \<open>switch (pass.op)\<close> of \<open>merge_pixels\<close> for one pass of a layer.\<close>

definition merge_pixels_pass ::
  "int \<Rightarrow> nat \<Rightarrow> int list \<Rightarrow> real list \<Rightarrow> MergeImagePass \<Rightarrow> real list \<Rightarrow> real list option" where
  "merge_pixels_pass layer_samples stride channel_total_samples pixels pass out_pixels =
     (let num_pixels = length pixels in
      case op pass of
        MERGE_CHANNEL_NOP \<Rightarrow> Some out_pixels
      | MERGE_CHANNEL_COPY \<Rightarrow>
          merge_loop (\<lambda>out v. v) num_pixels stride (offset pass) (merge_offset pass) 0
            pixels out_pixels
      | MERGE_CHANNEL_SUM \<Rightarrow>
          merge_loop (\<lambda>out v. out + v) num_pixels stride (offset pass) (merge_offset pass) 0
            pixels out_pixels
      | MERGE_CHANNEL_AVERAGE \<Rightarrow>
          if offset pass < length channel_total_samples then
            let total_samples = channel_total_samples ! offset pass;
                t = real_of_int layer_samples / real_of_int total_samples
            in merge_loop (\<lambda>out v. out + t * v) num_pixels stride (offset pass)
                 (merge_offset pass) 0 pixels out_pixels
          else None)"

fun merge_pixels_passes ::
  "int \<Rightarrow> nat \<Rightarrow> int list \<Rightarrow> real list \<Rightarrow> MergeImagePass list \<Rightarrow> real list \<Rightarrow>
   real list option" where
  "merge_pixels_passes layer_samples stride cts pixels [] out_pixels = Some out_pixels"
| "merge_pixels_passes layer_samples stride cts pixels (pass # ps) out_pixels =
     (case merge_pixels_pass layer_samples stride cts pixels pass out_pixels of
        None \<Rightarrow> None
      | Some out_pixels \<Rightarrow> merge_pixels_passes layer_samples stride cts pixels ps out_pixels)"

fun merge_pixels_layers ::
  "nat \<Rightarrow> int list \<Rightarrow> real list \<Rightarrow> MergeImageLayer list \<Rightarrow> real list \<Rightarrow> real list option" where
  "merge_pixels_layers stride cts pixels [] out_pixels = Some out_pixels"
| "merge_pixels_layers stride cts pixels (layer # ls) out_pixels =
     (case merge_pixels_passes (samples layer) stride cts pixels (passes layer) out_pixels of
        None \<Rightarrow> None
      | Some out_pixels \<Rightarrow> merge_pixels_layers stride cts pixels ls out_pixels)"

datatype merge_error = ReadFailed string | Undefined_Behaviour

text \<open>
  The loop over the images of \<open>merge_pixels\<close>. \<open>alloc_pixels\<close> sizes the buffer of an
  image to \<open>width * height * nchannels\<close> floats, which \<open>read_image\<close> fills.
\<close>

fun merge_pixels_images ::
  "nat \<Rightarrow> int list \<Rightarrow> MergeImage list \<Rightarrow> real list \<Rightarrow> merge_error + real list" where
  "merge_pixels_images stride cts [] out_pixels = Inr out_pixels"
| "merge_pixels_images stride cts (img # imgs) out_pixels =
     (case in_pixels img of
        None \<Rightarrow> Inl (ReadFailed (''Failed to read image: '' @ filepath img))
      | Some data \<Rightarrow>
          let n = in_width img * in_height img * in_nchannels img;
              pixels = take n data @ replicate (n - length data) 0
          in
          (case merge_pixels_layers stride cts pixels (layers img) out_pixels of
             None \<Rightarrow> Inl Undefined_Behaviour
           | Some out_pixels \<Rightarrow> merge_pixels_images stride cts imgs out_pixels))"

text \<open>
  \<open>merge_pixels\<close>: the output buffer of \<open>width * height * nchannels\<close> floats of the
  output spec, zeroed, then every image merged into it.
\<close>

definition merge_pixels ::
  "MergeImage list \<Rightarrow> nat \<Rightarrow> nat \<Rightarrow> nat \<Rightarrow> int list \<Rightarrow> merge_error + real list" where
  "merge_pixels imgs out_width out_height out_nchannels channel_total_samples =
     merge_pixels_images out_nchannels channel_total_samples imgs
       (replicate (out_width * out_height * out_nchannels) 0)"

text \<open>
  The calls \<open>save_output\<close> makes on the output file and the file system, in order, and
  what each returns.
\<close>

datatype output_call =
    Open_Output string
  | Write_Image string
  | Close_Output string
  | Rename_File string string
  | Remove_File string

record SaveEnv =
  filesystem_extension :: "string \<Rightarrow> string"
  filesystem_unique_path :: string
  create_ok :: bool
  open_ok :: bool
  write_image_ok :: bool
  close_ok :: bool
  rename_ok :: bool
  geterror :: string
  rename_error :: string

definition tmp_filepath :: "SaveEnv \<Rightarrow> string \<Rightarrow> string" where
  "tmp_filepath env path =
     path @ (''.merge-tmp-'' @ filesystem_unique_path env) @ filesystem_extension env path"

text \<open>
  \<open>save_output\<close>: the returned flag, the error string and the calls made.
\<close>

definition save_output :: "SaveEnv \<Rightarrow> string \<Rightarrow> string \<Rightarrow> bool \<times> string \<times> output_call list" where
  "save_output env path error =
     (let tmp = tmp_filepath env path in
      if \<not> create_ok env
      then (False, ''Failed to open temporary file '' @ tmp @ '' for writing'', [])
      else if \<not> open_ok env
      then (False, ''Failed to open file '' @ tmp @ '' for writing: '' @ geterror env,
            [Open_Output tmp])
      else
        let calls = [Open_Output tmp, Write_Image tmp];
            (ok, error) =
              (if \<not> write_image_ok env
               then (False, ''Failed to write to file '' @ tmp @ '': '' @ geterror env)
               else (True, error));
            calls = calls @ [Close_Output tmp];
            (ok, error) =
              (if \<not> close_ok env
               then (False, ''Failed to save to file '' @ tmp @ '': '' @ geterror env)
               else (ok, error));
            calls = (if ok then calls @ [Rename_File tmp path] else calls);
            (ok, error) =
              (if ok \<and> \<not> rename_ok env
               then (False, ''Failed to move merged image to '' @ path @ '': '' @ rename_error env)
               else (ok, error));
            calls = (if \<not> ok then calls @ [Remove_File tmp] else calls)
        in (ok, error, calls))"

section \<open>Concrete inputs\<close>

definition example_metadata :: ImageMetaData where
  "example_metadata =
     \<lparr>md_is_float = False, md_is_half = False, md_channels = 4, md_width = 2, md_height = 1,
      md_depth = 1, md_builtin_free_cache = False, md_type = IMAGE_DATA_TYPE_USHORT4,
      md_colorspace = ''Filmic Log'', md_compress_as_srgb = False\<rparr>"

text \<open>
  An environment with one readable file, \<open>a.png\<close>: two RGBA pixels of 8 bits, the
  second one opaque.
\<close>

definition example_env :: Env where
  "example_env =
     \<lparr>u_colorspace_raw = ''__builtin_raw'',
      u_colorspace_srgb = ''__builtin_srgb'',
      detect_known_colorspace = (\<lambda>cs file_format is_hdr. cs),
      colorspace_is_data = (\<lambda>cs. cs = ''__builtin_raw''),
      builtin_image_info_cb = None,
      builtin_image_pixels_cb = None,
      builtin_image_float_pixels_cb = (\<lambda>filename data associate. []),
      path_exists = (\<lambda>f. f = ''a.png''),
      path_is_directory = (\<lambda>f. False),
      with_openvdb = False,
      openvdb_has_grid = (\<lambda>f g. False),
      openvdb_get_resolution = (\<lambda>f. (0, 0, 0)),
      volume_color_name = ''color'',
      volume_velocity_name = ''velocity'',
      ImageInput_create = (\<lambda>f. f = ''a.png''),
      ImageInput_open = (\<lambda>f. if f = ''a.png''
         then Some \<lparr>spec_width = 2, spec_height = 1, spec_depth = 1, spec_nchannels = 4,
                     spec_format = UINT8, spec_channelformats = []\<rparr>
         else None),
      ImageInput_open_config = (\<lambda>f unassociated. f = ''a.png''),
      format_name = (\<lambda>f. ''png''),
      read_image = (\<lambda>f format unassociated.
         [SByte 10, SByte 20, SByte 30, SByte 128, SByte 40, SByte 50, SByte 60, SByte 255]),
      ImageMetaData_default =
        \<lparr>md_is_float = False, md_is_half = False, md_channels = 0, md_width = 0, md_height = 0,
         md_depth = 0, md_builtin_free_cache = False, md_type = IMAGE_DATA_TYPE_FLOAT4,
         md_colorspace = ''__builtin_raw'', md_compress_as_srgb = False\<rparr>,
      metadata_equals = (\<lambda>a b. a = b),
      uninitialized = SByte 0,
      freed_memory = (\<lambda>pixels. []),
      util_image_cast_from_float = (\<lambda>format f.
         case format of
           UINT8 \<Rightarrow> SByte (if f = Fin 1 then 255 else 0)
         | USHORT \<Rightarrow> SUShort (if f = Fin 1 then 65535 else 0)
         | TD_HALF \<Rightarrow> SHalf (if f = Fin 1 then 15360 else 0)
         | _ \<Rightarrow> SFloat f),
      util_image_cast_to_float = (\<lambda>s. case s of SFloat f \<Rightarrow> f | _ \<Rightarrow> Fin 0),
      float_sub = (\<lambda>a b. case (a, b) of (Fin x, Fin y) \<Rightarrow> Fin (x - y) | _ \<Rightarrow> NaN),
      float_mul = (\<lambda>a b. case (a, b) of (Fin x, Fin y) \<Rightarrow> Fin (x * y) | _ \<Rightarrow> NaN),
      half_of_int = (\<lambda>i. word_of_int i),
      to_scene_linear = (\<lambda>cs pixels w h d compress. pixels),
      util_image_resize_pixels = (\<lambda>pixels w h d components k. (pixels, w, h, d)),
      create_sparse_grid_pad = (\<lambda>pixels w h d components filename isovalue. None),
      create_sparse_grid = (\<lambda>pixels w h d components filename isovalue. None),
      openvdb_load_preprocess = (\<lambda>filename grid isovalue pad. ([], - 1)),
      openvdb_load_image = (\<lambda>filename grid offsets size pad. []),
      PADDED_TILE = 10,
      make_texture = (\<lambda>filename outputfilename config. False),
      path_filename = (\<lambda>f. f),
      path_join = (\<lambda>dir f. dir @ ''/'' @ f),
      get_texture_handle = (\<lambda>f. 1),
      texture_handle_good = (\<lambda>h. True)\<rparr>"

definition example_identity :: ImageIdentity where
  "example_identity =
     \<lparr>id_filename = ''a.png'', id_grid_name = [], id_builtin_data = 0,
      id_interpolation = INTERPOLATION_LINEAR, id_extension = EXTENSION_REPEAT,
      id_alpha_type = IMAGE_ALPHA_AUTO, id_colorspace = ''__builtin_srgb''\<rparr>"

text \<open>An identity whose file does not exist.\<close>

definition other_identity :: ImageIdentity where
  "other_identity = example_identity\<lparr>id_filename := ''b.png''\<rparr>"

text \<open>A record as \<open>add_image\<close> creates it for \<open>example_identity\<close>.\<close>

definition example_image :: Image where
  "example_image =
     \<lparr>img_filename = ''a.png'', img_grid_name = [], img_builtin_data = 0,
      img_metadata = example_metadata\<lparr>md_type := IMAGE_DATA_TYPE_BYTE4,
                                      md_colorspace := ''__builtin_srgb'',
                                      md_compress_as_srgb := True\<rparr>,
      img_need_load = True, img_animated = False, img_frame = Fin 0,
      img_interpolation = INTERPOLATION_LINEAR, img_extension = EXTENSION_REPEAT,
      img_users = 1, img_alpha_type = IMAGE_ALPHA_AUTO, img_colorspace = ''__builtin_srgb'',
      img_is_volume = False, img_isovalue = Fin 0, img_mem = None, img_mem_name = []\<rparr>"

text \<open>
  \<open>ImageManager::ImageManager\<close>: the manager after its constructor. The macro
  \<open>TEX_NUM_MAX\<close> of \<open>util/util_texture.h\<close> is a parameter.
\<close>

definition new_manager :: "int \<Rightarrow> bool \<Rightarrow> ImageManager" where
  "new_manager TEX_NUM_MAX half_images =
     \<lparr>need_update = True, pack_images = False, oiio_texture_system = False,
      animation_frame = 0, max_num_images = TEX_NUM_MAX, has_half_images = half_images,
      tex_num_images = (\<lambda>type. 0), images = (\<lambda>type. [])\<rparr>"

text \<open>
  A manager that holds \<open>example_image\<close> in slot 0 of the byte4 vector, whose slot 1 is
  empty; its limit is one image.
\<close>

definition example_manager :: ImageManager where
  "example_manager =
     (new_manager 1 True)\<lparr>
        tex_num_images := (\<lambda>type. 0)(IMAGE_DATA_TYPE_BYTE4 := 1),
        images := (\<lambda>type. [])(IMAGE_DATA_TYPE_BYTE4 := [Some example_image, None])\<rparr>"

definition example_device :: Device where
  "example_device =
     \<lparr>dev_is_cuda = False, dev_alloc_ok = (\<lambda>n. True), dev_oiio_textures = None,
      dev_oiio_default = \<lparr>tex_handle = None, tex_interpolation = InterpClosest,
                          tex_extension = WrapPeriodic, tex_is_linear = False\<rparr>\<rparr>"

definition example_scene :: SceneParams where
  "example_scene =
     \<lparr>sp_texture_limit = 0, sp_use_custom_cache_path = False, sp_custom_cache_path = [],
      sp_auto_convert = False\<rparr>"

text \<open>
  An environment with one readable float file, \<open>a.exr\<close>: two RGBA pixels, each with a
  channel that is not finite.
\<close>

definition float_env :: Env where
  "float_env =
     example_env\<lparr>
       path_exists := (\<lambda>f. f = ''a.exr''),
       ImageInput_create := (\<lambda>f. f = ''a.exr''),
       ImageInput_open_config := (\<lambda>f unassociated. f = ''a.exr''),
       format_name := (\<lambda>f. ''openexr''),
       read_image := (\<lambda>f format unassociated.
         [SFloat NaN, SFloat (Fin (1 / 4)), SFloat (Fin (1 / 2)), SFloat (Fin (1 / 2)),
          SFloat PosInf, SFloat (Fin (1 / 4)), SFloat (Fin (1 / 2)), SFloat (Fin 1)]),
       uninitialized := SFloat (Fin 0)\<rparr>"

definition float_image :: Image where
  "float_image =
     example_image\<lparr>
       img_filename := ''a.exr'',
       img_metadata := \<lparr>md_is_float = True, md_is_half = False, md_channels = 4, md_width = 2,
                         md_height = 1, md_depth = 1, md_builtin_free_cache = False,
                         md_type = IMAGE_DATA_TYPE_FLOAT4, md_colorspace = ''__builtin_raw'',
                         md_compress_as_srgb = False\<rparr>,
       img_colorspace := ''__builtin_raw''\<rparr>"

text \<open>What the progress reports to the loaders of one update: no cancel, or cancel.\<close>

definition no_cancel :: "ImageDataType \<Rightarrow> nat \<Rightarrow> bool" where
  "no_cancel type slot = False"

definition all_cancel :: "ImageDataType \<Rightarrow> nat \<Rightarrow> bool" where
  "all_cancel type slot = True"

text \<open>A device on which every allocation fails.\<close>

definition full_device :: Device where
  "full_device = example_device\<lparr>dev_alloc_ok := (\<lambda>n. False)\<rparr>"

text \<open>
  Two files of one pixel, as \<open>open_images\<close> delivers them. The first has the channels
  \<open>L.Combined.R\<close> and \<open>L.Combined.G\<close> and 10 samples for its layer \<open>L\<close>; the second has
  the channel \<open>L.Combined.G\<close> only, and 30 samples.
\<close>

definition first_file :: MergeImage where
  "first_file =
     \<lparr>filepath = ''first.exr'',
      layers = [\<lparr>layer_name = ''L'',
                 passes = [snd (parse_channels_pass False TD_FLOAT 0 ''L.Combined.R''),
                           snd (parse_channels_pass False TD_FLOAT 1 ''L.Combined.G'')],
                 samples = 10\<rparr>],
      in_width = 1, in_height = 1, in_nchannels = 2, in_pixels = Some [1 / 2, 2 / 5]\<rparr>"

definition second_file :: MergeImage where
  "second_file =
     \<lparr>filepath = ''second.exr'',
      layers = [\<lparr>layer_name = ''L'',
                 passes = [snd (parse_channels_pass False TD_FLOAT 0 ''L.Combined.G'')],
                 samples = 30\<rparr>],
      in_width = 1, in_height = 1, in_nchannels = 1, in_pixels = Some [4 / 5]\<rparr>"

text \<open>A file of one pixel with the single channel \<open>L.Combined.R\<close>.\<close>

definition single_file :: "int \<Rightarrow> real \<Rightarrow> MergeImage" where
  "single_file n v =
     \<lparr>filepath = ''single.exr'',
      layers = [\<lparr>layer_name = ''L'',
                 passes = [snd (parse_channels_pass False TD_FLOAT 0 ''L.Combined.R'')],
                 samples = n\<rparr>],
      in_width = 1, in_height = 1, in_nchannels = 1, in_pixels = Some [v]\<rparr>"

text \<open>
  A file system and an output file on which every call of \<open>save_output\<close> succeeds.
\<close>

definition example_save_env :: SaveEnv where
  "example_save_env =
     \<lparr>filesystem_extension = (\<lambda>path. ''.exr''), filesystem_unique_path = ''0a1b'',
      create_ok = True, open_ok = True, write_image_ok = True, close_ok = True,
      rename_ok = True, geterror = ''error'', rename_error = ''rename error''\<rparr>"

section \<open>Properties\<close>

subsection \<open>Flat handles\<close>

lemma type_of_tag_type_tag: "type_of_tag (type_tag t) = t"
  by (cases t) (simp_all add: type_of_tag_def)

lemma bit_nat_bound: "(m::nat) < 2 ^ k \<Longrightarrow> bit m n \<Longrightarrow> n < k"
proof (rule ccontr)
  assume m: "m < 2 ^ k" and b: "bit m n" and "\<not> n < k"
  then have "(2::nat) ^ k \<le> 2 ^ n" by simp
  with m have "m < 2 ^ n" by (rule less_le_trans)
  then have "m div 2 ^ n = 0" by simp
  with b show False by (simp add: bit_iff_odd)
qed

lemma type_tag_less: "type_tag t < 2 ^ 3"
  by (cases t) simp_all

lemma mask_7: "(7::32 word) = mask 3"
  by (simp add: mask_eq_exp_minus_1)

lemma flattened_slot_mask:
  "type_index_to_flattened_slot slot t AND IMAGE_DATA_TYPE_MASK = word_of_nat (type_tag t)"
  unfolding type_index_to_flattened_slot_def IMAGE_DATA_TYPE_MASK_def IMAGE_DATA_TYPE_SHIFT_def mask_7
  by (rule bit_word_eqI) (auto simp add: bit_simps dest: bit_nat_bound [OF type_tag_less])

lemma flattened_slot_shift:
  assumes "slot < 2 ^ 28"
  shows "signed_drop_bit IMAGE_DATA_TYPE_SHIFT (type_index_to_flattened_slot slot t) = word_of_nat slot"
proof -
  have sb: "n < 28" if "bit slot n" for n
    using assms that by (rule bit_nat_bound)
  have tb: "n < 3" if "bit (type_tag t) n" for n
    using type_tag_less that by (rule bit_nat_bound)
  show ?thesis
    unfolding type_index_to_flattened_slot_def IMAGE_DATA_TYPE_SHIFT_def
    by (rule bit_word_eqI) (auto simp add: bit_simps dest: sb tb)
qed

lemma sint_slot: "slot < 2 ^ 28 \<Longrightarrow> sint (word_of_nat slot :: 32 word) = int slot"
  by (simp add: signed_of_nat signed_take_bit_int_eq_self)

lemma unat_type_tag: "unat (word_of_nat (type_tag t) :: 32 word) = type_tag t"
  by (cases t) simp_all

lemma flattened_slot_inverse:
  "slot < 2 ^ 28 \<Longrightarrow>
   flattened_slot_to_type_index (type_index_to_flattened_slot slot t) = (int slot, t)"
  by (simp add: flattened_slot_to_type_index_def flattened_slot_mask flattened_slot_shift
      sint_slot unat_type_tag type_of_tag_type_tag)

lemma flattened_slot_valid:
  assumes "slot < 2 ^ 28"
  shows "type_index_to_flattened_slot slot t \<noteq> - 1"
proof
  assume "type_index_to_flattened_slot slot t = - 1"
  with flattened_slot_inverse [OF assms, of t]
  have "fst (flattened_slot_to_type_index (- 1)) = int slot" by simp
  then show False
    by (simp add: flattened_slot_to_type_index_def IMAGE_DATA_TYPE_SHIFT_def)
qed

subsection \<open>Metadata of a slot\<close>

text \<open>
  C10: \<open>get_image_metadata(flat_slot, metadata)\<close> returns false for the handle -1 and
  for a handle whose slot holds no record, leaving \<open>metadata\<close> as it was in both cases,
  and returns true with a copy of the record's metadata when the slot holds a record.
\<close>

theorem get_image_metadata_slot_result:
  "get_image_metadata_slot mgr (- 1) metadata = Some (False, metadata) \<and>
   (flat_slot \<noteq> - 1 \<and> flattened_slot_to_type_index flat_slot = (slot, type) \<and>
    image_at mgr type slot = Some None \<longrightarrow>
      get_image_metadata_slot mgr flat_slot metadata = Some (False, metadata)) \<and>
   (flat_slot \<noteq> - 1 \<and> flattened_slot_to_type_index flat_slot = (slot, type) \<and>
    image_at mgr type slot = Some (Some img) \<longrightarrow>
      get_image_metadata_slot mgr flat_slot metadata = Some (True, img_metadata img))"
  by (simp add: get_image_metadata_slot_def)

theorem get_image_metadata_slot_result_witness:
  "get_image_metadata_slot example_manager (- 1) example_metadata = Some (False, example_metadata) \<and>
   flattened_slot_to_type_index 9 = (1, IMAGE_DATA_TYPE_BYTE4) \<and>
   image_at example_manager IMAGE_DATA_TYPE_BYTE4 1 = Some None \<and>
   get_image_metadata_slot example_manager 9 example_metadata = Some (False, example_metadata) \<and>
   flattened_slot_to_type_index 1 = (0, IMAGE_DATA_TYPE_BYTE4) \<and>
   image_at example_manager IMAGE_DATA_TYPE_BYTE4 0 = Some (Some example_image) \<and>
   get_image_metadata_slot example_manager 1 example_metadata =
     Some (True, img_metadata example_image)"
proof -
  have d9: "flattened_slot_to_type_index 9 = (1, IMAGE_DATA_TYPE_BYTE4)"
    by (simp add: flattened_slot_to_type_index_def IMAGE_DATA_TYPE_SHIFT_def
        IMAGE_DATA_TYPE_MASK_def type_of_tag_def)
  have d1: "flattened_slot_to_type_index 1 = (0, IMAGE_DATA_TYPE_BYTE4)"
    by (simp add: flattened_slot_to_type_index_def IMAGE_DATA_TYPE_SHIFT_def
        IMAGE_DATA_TYPE_MASK_def type_of_tag_def)
  have a1: "image_at example_manager IMAGE_DATA_TYPE_BYTE4 1 = Some None"
    by (simp add: image_at_def example_manager_def)
  have a0: "image_at example_manager IMAGE_DATA_TYPE_BYTE4 0 = Some (Some example_image)"
    by (simp add: image_at_def example_manager_def)
  from get_image_metadata_slot_result
         [of example_manager example_metadata 9 1 IMAGE_DATA_TYPE_BYTE4 example_image]
       get_image_metadata_slot_result
         [of example_manager example_metadata 1 0 IMAGE_DATA_TYPE_BYTE4 example_image]
       d9 d1 a1 a0
  show ?thesis by simp
qed

subsection \<open>Colorspace detection\<close>

text \<open>
  C9: when the detected colorspace is neither raw nor sRGB,
  \<open>metadata_detect_colorspace\<close> sets \<open>compress_as_srgb\<close> exactly for the types byte and
  byte4, turns ushort into half and ushort4 into half4, and leaves every other type as it
  is.
\<close>

theorem metadata_detect_colorspace_other:
  assumes "detect_known_colorspace env (md_colorspace md) file_format
             (md_is_float md \<or> md_is_half md) \<noteq> u_colorspace_raw env"
      and "detect_known_colorspace env (md_colorspace md) file_format
             (md_is_float md \<or> md_is_half md) \<noteq> u_colorspace_srgb env"
  shows "md_compress_as_srgb (metadata_detect_colorspace env md file_format) =
           (md_type md = IMAGE_DATA_TYPE_BYTE \<or> md_type md = IMAGE_DATA_TYPE_BYTE4) \<and>
         md_type (metadata_detect_colorspace env md file_format) =
           (if md_type md = IMAGE_DATA_TYPE_USHORT then IMAGE_DATA_TYPE_HALF
            else if md_type md = IMAGE_DATA_TYPE_USHORT4 then IMAGE_DATA_TYPE_HALF4
            else md_type md)"
  using assms by (simp add: metadata_detect_colorspace_def Let_def)

theorem metadata_detect_colorspace_other_witness:
  "detect_known_colorspace example_env (md_colorspace example_metadata) ''png''
     (md_is_float example_metadata \<or> md_is_half example_metadata) \<noteq> u_colorspace_raw example_env \<and>
   detect_known_colorspace example_env (md_colorspace example_metadata) ''png''
     (md_is_float example_metadata \<or> md_is_half example_metadata) \<noteq> u_colorspace_srgb example_env \<and>
   md_compress_as_srgb (metadata_detect_colorspace example_env example_metadata ''png'') = False \<and>
   md_type (metadata_detect_colorspace example_env example_metadata ''png'') = IMAGE_DATA_TYPE_HALF4 \<and>
   md_compress_as_srgb (metadata_detect_colorspace example_env
      (example_metadata\<lparr>md_type := IMAGE_DATA_TYPE_BYTE\<rparr>) ''png'') = True \<and>
   md_type (metadata_detect_colorspace example_env
      (example_metadata\<lparr>md_type := IMAGE_DATA_TYPE_BYTE\<rparr>) ''png'') = IMAGE_DATA_TYPE_BYTE"
  using metadata_detect_colorspace_other [of example_env example_metadata "''png''"]
        metadata_detect_colorspace_other
          [of example_env "example_metadata\<lparr>md_type := IMAGE_DATA_TYPE_BYTE\<rparr>" "''png''"]
  by (simp add: example_env_def example_metadata_def)

subsection \<open>Adding images\<close>

lemma image_equals_reuse:
  "image_equals img i \<Longrightarrow> image_equals (reuse_image env img i frame metadata) i"
  by (simp add: image_equals_def reuse_image_def Let_def)

lemma users_reuse: "img_users (reuse_image env img i frame metadata) = img_users img + 1"
  by (simp add: reuse_image_def Let_def)

lemma image_equals_new: "image_equals (new_image i animated frame is_volume isovalue metadata) i"
  by (simp add: image_equals_def new_image_def)

lemma find_image_Some:
  "find_image i imgs k = Some (slot, img) \<Longrightarrow>
   k \<le> slot \<and> slot - k < length imgs \<and> imgs ! (slot - k) = Some img \<and> image_equals img i"
proof (induction i imgs k rule: find_image.induct)
  case (1 i slot)
  then show ?case by simp
next
  case (2 i imgs k)
  then have "Suc k \<le> slot \<and> slot - Suc k < length imgs \<and> imgs ! (slot - Suc k) = Some img \<and> image_equals img i" by simp
  then show ?case by (auto simp: Suc_diff_Suc less_eq_Suc_le nth_Cons')
next
  case (3 i im imgs k)
  show ?case
  proof (cases "image_equals im i")
    case True
    with 3 show ?thesis by simp
  next
    case False
    with 3 have "Suc k \<le> slot \<and> slot - Suc k < length imgs \<and> imgs ! (slot - Suc k) = Some img \<and> image_equals img i" by simp
    then show ?thesis by (auto simp: nth_Cons')
  qed
qed

lemma find_image_update:
  "find_image i imgs k = Some (slot, img) \<Longrightarrow> image_equals img' i \<Longrightarrow>
   find_image i (imgs[slot - k := Some img']) k = Some (slot, img')"
proof (induction i imgs k rule: find_image.induct)
  case (1 i slot)
  then show ?case by simp
next
  case (2 i imgs k)
  from 2(2) have f: "find_image i imgs (Suc k) = Some (slot, img)" by simp
  from find_image_Some [OF f] have "Suc k \<le> slot" by simp
  then have "slot - k = Suc (slot - Suc k)" by simp
  with 2 f show ?case by simp
next
  case (3 i im imgs k)
  show ?case
  proof (cases "image_equals im i")
    case True
    with 3 show ?thesis by simp
  next
    case False
    with 3(2) have f: "find_image i imgs (Suc k) = Some (slot, img)" by simp
    from find_image_Some [OF f] have "Suc k \<le> slot" by simp
    then have "slot - k = Suc (slot - Suc k)" by simp
    with 3 f False show ?thesis by simp
  qed
qed

lemma count_images_update:
  "find_image i imgs k = Some (slot, img) \<Longrightarrow> image_equals img' i \<Longrightarrow>
   count_images i (imgs[slot - k := Some img']) = count_images i imgs"
proof (induction i imgs k rule: find_image.induct)
  case (1 i slot)
  then show ?case by simp
next
  case (2 i imgs k)
  from 2(2) have f: "find_image i imgs (Suc k) = Some (slot, img)" by simp
  from find_image_Some [OF f] have "Suc k \<le> slot" by simp
  then have "slot - k = Suc (slot - Suc k)" by simp
  with 2 f show ?case by (simp add: count_images_def)
next
  case (3 i im imgs k)
  show ?case
  proof (cases "image_equals im i")
    case True
    with 3 show ?thesis by (simp add: count_images_def)
  next
    case False
    with 3(2) have f: "find_image i imgs (Suc k) = Some (slot, img)" by simp
    from find_image_Some [OF f] have "Suc k \<le> slot" by simp
    then have "slot - k = Suc (slot - Suc k)" by simp
    with 3 f False show ?thesis by (simp add: count_images_def)
  qed
qed

lemma find_image_None_count: "find_image i imgs k = None \<Longrightarrow> count_images i imgs = 0"
  by (induction i imgs k rule: find_image.induct) (auto simp: count_images_def split: if_splits)

lemma find_image_Some_count: "find_image i imgs k = Some r \<Longrightarrow> 0 < count_images i imgs"
  by (induction i imgs k rule: find_image.induct) (auto simp: count_images_def split: if_splits)

lemma find_free_slot_bounds: "k \<le> find_free_slot imgs k \<and> find_free_slot imgs k - k \<le> length imgs"
  by (induction imgs k rule: find_free_slot.induct) auto

lemma find_free_slot_Cons_Some:
  "find_free_slot (Some im # imgs) k - k = Suc (find_free_slot imgs (Suc k) - Suc k)"
  using find_free_slot_bounds [of "Suc k" imgs] by (simp, arith)

lemma insert_image_Cons_Some:
  "insert_image (Some im # imgs) k img = Some im # insert_image imgs (Suc k) img"
  unfolding insert_image_def Let_def find_free_slot_Cons_Some by simp

lemma insert_image_Cons_None: "insert_image (None # imgs) k img = Some img # imgs"
  by (simp add: insert_image_def)

lemma insert_image_Nil: "insert_image [] k img = [Some img]"
  by (simp add: insert_image_def)

lemma find_image_insert:
  "find_image i imgs k = None \<Longrightarrow> image_equals img i \<Longrightarrow>
   find_image i (insert_image imgs k img) k = Some (find_free_slot imgs k, img)"
proof (induction i imgs k rule: find_image.induct)
  case (1 i slot)
  then show ?case by (simp add: insert_image_Nil)
next
  case (2 i imgs k)
  then show ?case by (simp add: insert_image_Cons_None)
next
  case (3 i im imgs k)
  then show ?case by (simp add: insert_image_Cons_Some split: if_splits)
qed

lemma count_images_insert:
  "find_image i imgs k = None \<Longrightarrow> image_equals img i \<Longrightarrow>
   count_images i (insert_image imgs k img) = 1"
proof (induction i imgs k rule: find_image.induct)
  case (1 i slot)
  then show ?case by (simp add: insert_image_Nil count_images_def)
next
  case (2 i imgs k)
  from 2(2) have "find_image i imgs (Suc k) = None" by simp
  from find_image_None_count [OF this] 2 show ?case
    by (simp add: insert_image_Cons_None count_images_def)
next
  case (3 i im imgs k)
  then show ?case by (simp add: insert_image_Cons_Some count_images_def split: if_splits)
qed

lemma length_insert_image:
  "length (insert_image imgs k img) =
     (if find_free_slot imgs k - k = length imgs then Suc (length imgs) else length imgs)"
  by (simp add: insert_image_def Let_def)

lemma nth_insert_image:
  "insert_image imgs k img ! (find_free_slot imgs k - k) = Some img"
  using find_free_slot_bounds [of k imgs]
  by (auto simp add: insert_image_def Let_def nth_list_update nth_append)

lemma add_image_found:
  assumes "find_image i (images mgr (probe_type env mgr i)) 0 = Some (slot, img)"
  shows "add_image env mgr i animated frame is_volume isovalue =
           (type_index_to_flattened_slot slot (probe_type env mgr i), probe_metadata env i,
            mgr\<lparr>images := (images mgr)(probe_type env mgr i :=
                   (images mgr (probe_type env mgr i))
                     [slot := Some (reuse_image env img i frame (probe_metadata env i))])\<rparr>)"
  using assms by (simp add: add_image_def probe_type_def probe_metadata_def Let_def)

lemma add_image_full:
  assumes "find_image i (images mgr (probe_type env mgr i)) 0 = None"
      and "tex_count mgr > max_num_images mgr"
  shows "add_image env mgr i animated frame is_volume isovalue = (- 1, probe_metadata env i, mgr)"
  using assms by (simp add: add_image_def probe_type_def probe_metadata_def Let_def)

lemma add_image_fresh:
  assumes "find_image i (images mgr (probe_type env mgr i)) 0 = None"
      and "\<not> tex_count mgr > max_num_images mgr"
  shows "add_image env mgr i animated frame is_volume isovalue =
           (type_index_to_flattened_slot (find_free_slot (images mgr (probe_type env mgr i)) 0)
              (probe_type env mgr i),
            probe_metadata env i,
            mgr\<lparr>images := (images mgr)(probe_type env mgr i :=
                   insert_image (images mgr (probe_type env mgr i)) 0
                     (new_image i animated frame is_volume isovalue (probe_metadata env i))),
                tex_num_images := (tex_num_images mgr)(probe_type env mgr i :=
                   tex_num_images mgr (probe_type env mgr i) + 1),
                need_update := True\<rparr>)"
  using assms
  by (simp add: add_image_def probe_type_def probe_metadata_def insert_image_def Let_def)

lemma probe_type_cong:
  "has_half_images mgr' = has_half_images mgr \<Longrightarrow> probe_type env mgr' i = probe_type env mgr i"
  by (simp add: probe_type_def add_image_type_def)

lemma tex_count_incr:
  "tex_count (mgr\<lparr>tex_num_images := (tex_num_images mgr)(t := tex_num_images mgr t + 1)\<rparr>) =
   tex_count mgr + 1"
  by (cases t) (simp_all add: tex_count_def all_types_def)

lemma nth_insert_image_other:
  "s < length imgs \<Longrightarrow> s \<noteq> find_free_slot imgs k - k \<Longrightarrow> insert_image imgs k img ! s = imgs ! s"
  by (simp add: insert_image_def Let_def nth_append)

lemma example_probe:
  "get_image_metadata example_env ''a.png'' [] 0 ''__builtin_srgb'' =
     (True, example_metadata\<lparr>md_type := IMAGE_DATA_TYPE_BYTE4,
                                      md_colorspace := ''__builtin_srgb'',
                                      md_compress_as_srgb := True\<rparr>)"
  by (simp add: get_image_metadata_def example_env_def example_metadata_def
      metadata_detect_colorspace_def Let_def)

lemma new_manager_simps:
  "images (new_manager n h) t = []"
  "tex_num_images (new_manager n h) t = 0"
  "max_num_images (new_manager n h) = n"
  "has_half_images (new_manager n h) = h"
  "tex_count (new_manager n h) = 0"
  by (simp_all add: new_manager_def tex_count_def all_types_def)

lemma example_probe_type:
  "probe_type example_env (new_manager n True) example_identity = IMAGE_DATA_TYPE_BYTE4"
  by (simp add: probe_type_def example_identity_def example_probe add_image_type_def new_manager_def)

lemma other_probe:
  "get_image_metadata example_env ''b.png'' [] 0 ''__builtin_srgb'' =
     (False, (ImageMetaData_default example_env)\<lparr>md_colorspace := ''__builtin_srgb''\<rparr>)"
  by (simp add: get_image_metadata_def example_env_def Let_def)

lemma other_probe_type:
  "has_half_images mgr \<Longrightarrow> probe_type example_env mgr other_identity = IMAGE_DATA_TYPE_FLOAT4"
  by (simp add: probe_type_def other_identity_def example_identity_def other_probe
      add_image_type_def) (simp add: example_env_def)

lemma example_manager_simps:
  "images example_manager IMAGE_DATA_TYPE_FLOAT4 = []"
  "has_half_images example_manager"
  "max_num_images example_manager = 1"
  "tex_count example_manager = 1"
  by (simp_all add: example_manager_def new_manager_def tex_count_def all_types_def)

text \<open>
  C4: \<open>add_image\<close> of an identity that has no record accepts the image while the sum of
  the per-type counters is exactly the limit (\<open>TEX_NUM_MAX\<close>): the record goes into the
  free slot, the count grows by one and every other slot is as before. When the count is
  one more than the limit it returns -1 and leaves the manager as it was. The handle of
  an accepted image is not -1 and decodes to its slot and type (for a slot below
  \<open>2 ^ 28\<close>, beyond which the 32-bit handle wraps).
\<close>

theorem add_image_limit:
  assumes fresh: "find_image i (images mgr (probe_type env mgr i)) 0 = None"
  shows "(tex_count mgr = max_num_images mgr \<longrightarrow>
           (\<exists>mgr'.
              add_image env mgr i animated frame is_volume isovalue =
                (type_index_to_flattened_slot
                   (find_free_slot (images mgr (probe_type env mgr i)) 0) (probe_type env mgr i),
                 probe_metadata env i, mgr') \<and>
              image_at mgr' (probe_type env mgr i)
                  (int (find_free_slot (images mgr (probe_type env mgr i)) 0)) =
                Some (Some (new_image i animated frame is_volume isovalue (probe_metadata env i))) \<and>
              tex_count mgr' = tex_count mgr + 1 \<and>
              (\<forall>t s. s < length (images mgr t) \<longrightarrow>
                     (t, s) \<noteq> (probe_type env mgr i,
                                find_free_slot (images mgr (probe_type env mgr i)) 0) \<longrightarrow>
                     images mgr' t ! s = images mgr t ! s))) \<and>
         (tex_count mgr = max_num_images mgr + 1 \<longrightarrow>
            add_image env mgr i animated frame is_volume isovalue = (- 1, probe_metadata env i, mgr)) \<and>
         (find_free_slot (images mgr (probe_type env mgr i)) 0 < 2 ^ 28 \<longrightarrow>
            type_index_to_flattened_slot
              (find_free_slot (images mgr (probe_type env mgr i)) 0) (probe_type env mgr i) \<noteq> - 1 \<and>
            flattened_slot_to_type_index
              (type_index_to_flattened_slot
                 (find_free_slot (images mgr (probe_type env mgr i)) 0) (probe_type env mgr i)) =
              (int (find_free_slot (images mgr (probe_type env mgr i)) 0), probe_type env mgr i))"
proof -
  let ?ty = "probe_type env mgr i"
  let ?slot = "find_free_slot (images mgr ?ty) 0"
  let ?new = "new_image i animated frame is_volume isovalue (probe_metadata env i)"
  let ?mgr' = "mgr\<lparr>images := (images mgr)(?ty := insert_image (images mgr ?ty) 0 ?new),
                tex_num_images := (tex_num_images mgr)(?ty := tex_num_images mgr ?ty + 1),
                need_update := True\<rparr>"
  have accept: "\<exists>mgr'.
              add_image env mgr i animated frame is_volume isovalue =
                (type_index_to_flattened_slot ?slot ?ty, probe_metadata env i, mgr') \<and>
              image_at mgr' ?ty (int ?slot) = Some (Some ?new) \<and>
              tex_count mgr' = tex_count mgr + 1 \<and>
              (\<forall>t s. s < length (images mgr t) \<longrightarrow> (t, s) \<noteq> (?ty, ?slot) \<longrightarrow>
                     images mgr' t ! s = images mgr t ! s)"
    if eq: "tex_count mgr = max_num_images mgr"
  proof -
    from eq have le: "\<not> tex_count mgr > max_num_images mgr" by simp
    have a: "add_image env mgr i animated frame is_volume isovalue =
               (type_index_to_flattened_slot ?slot ?ty, probe_metadata env i, ?mgr')"
      by (rule add_image_fresh [OF fresh le])
    have b: "image_at ?mgr' ?ty (int ?slot) = Some (Some ?new)"
      using nth_insert_image [of "images mgr ?ty" 0 ?new] find_free_slot_bounds [of 0 "images mgr ?ty"]
      by (simp add: image_at_def length_insert_image)
    have c: "tex_count ?mgr' = tex_count mgr + 1"
      using tex_count_incr [of mgr ?ty] by (simp add: tex_count_def)
    have d: "\<forall>t s. s < length (images mgr t) \<longrightarrow> (t, s) \<noteq> (?ty, ?slot) \<longrightarrow>
                     images ?mgr' t ! s = images mgr t ! s"
      by (simp add: nth_insert_image_other)
    from a b c d show ?thesis by blast
  qed
  have reject: "add_image env mgr i animated frame is_volume isovalue = (- 1, probe_metadata env i, mgr)"
    if "tex_count mgr = max_num_images mgr + 1"
  proof -
    from that have "tex_count mgr > max_num_images mgr" by simp
    with fresh show ?thesis by (rule add_image_full)
  qed
  have handle: "type_index_to_flattened_slot ?slot ?ty \<noteq> - 1 \<and>
     flattened_slot_to_type_index (type_index_to_flattened_slot ?slot ?ty) = (int ?slot, ?ty)"
    if "?slot < 2 ^ 28"
    using that by (simp add: flattened_slot_valid flattened_slot_inverse)
  from accept reject handle show ?thesis by blast
qed

theorem add_image_limit_witness:
  "find_image other_identity
     (images example_manager (probe_type example_env example_manager other_identity)) 0 = None \<and>
   tex_count example_manager = max_num_images example_manager \<and>
   fst (add_image example_env example_manager other_identity False (Fin 0) False (Fin 0)) = 0 \<and>
   tex_count (snd (snd (add_image example_env example_manager other_identity
                          False (Fin 0) False (Fin 0)))) = 2 \<and>
   tex_count (example_manager\<lparr>max_num_images := 0\<rparr>) =
     max_num_images (example_manager\<lparr>max_num_images := 0\<rparr>) + 1 \<and>
   add_image example_env (example_manager\<lparr>max_num_images := 0\<rparr>) other_identity
       False (Fin 0) False (Fin 0) =
     (- 1, probe_metadata example_env other_identity, example_manager\<lparr>max_num_images := 0\<rparr>)"
proof -
  have pt: "probe_type example_env example_manager other_identity = IMAGE_DATA_TYPE_FLOAT4"
    by (simp add: other_probe_type example_manager_simps)
  have pt': "probe_type example_env (example_manager\<lparr>max_num_images := 0\<rparr>) other_identity =
               IMAGE_DATA_TYPE_FLOAT4"
    by (simp add: other_probe_type example_manager_simps)
  have f: "find_image other_identity (images example_manager IMAGE_DATA_TYPE_FLOAT4) 0 = None"
    by (simp add: example_manager_simps)
  have c': "tex_count (example_manager\<lparr>max_num_images := 0\<rparr>) = 1"
    using example_manager_simps(4) by (simp add: tex_count_def)
  from add_image_limit [of other_identity example_manager example_env False "Fin 0" False "Fin 0"]
       add_image_limit [of other_identity "example_manager\<lparr>max_num_images := 0\<rparr>" example_env
                          False "Fin 0" False "Fin 0"]
       pt pt' f c'
  show ?thesis
    by (auto simp add: example_manager_simps type_index_to_flattened_slot_def
        IMAGE_DATA_TYPE_SHIFT_def)
qed

text \<open>
  C5: two calls of \<open>add_image\<close> for one identity return the same handle; the second call
  allocates nothing (the counters and the sizes of the vectors are those after the first
  call); and when the calls return a handle, the vector holds exactly one more record of
  that identity than before if it held none, the same number otherwise, and the record
  has two more users than before (2 for a new record).
\<close>

theorem add_image_twice:
  assumes r1: "add_image env mgr i animated frame is_volume isovalue = (h1, md1, mgr1)"
      and r2: "add_image env mgr1 i animated' frame' is_volume' isovalue' = (h2, md2, mgr2)"
  shows "h2 = h1 \<and> tex_num_images mgr2 = tex_num_images mgr1 \<and>
         (\<forall>t. length (images mgr2 t) = length (images mgr1 t)) \<and>
         (h1 \<noteq> - 1 \<longrightarrow>
            (\<exists>slot img.
                h1 = type_index_to_flattened_slot slot (probe_type env mgr i) \<and>
                find_image i (images mgr2 (probe_type env mgr i)) 0 = Some (slot, img) \<and>
                img_users img = users_of i (images mgr (probe_type env mgr i)) + 2) \<and>
            count_images i (images mgr2 (probe_type env mgr i)) =
              max 1 (count_images i (images mgr (probe_type env mgr i))))"
proof -
  let ?ty = "probe_type env mgr i"
  let ?md = "probe_metadata env i"
  show ?thesis
  proof (cases "find_image i (images mgr ?ty) 0")
    case (Some r)
    obtain slot img where r: "r = (slot, img)" by (cases r)
    with Some have f0: "find_image i (images mgr ?ty) 0 = Some (slot, img)" by simp
    let ?img1 = "reuse_image env img i frame ?md"
    let ?img2 = "reuse_image env ?img1 i frame' ?md"
    have "(h1, md1, mgr1) = (type_index_to_flattened_slot slot ?ty, ?md,
            mgr\<lparr>images := (images mgr)(?ty := (images mgr ?ty)[slot := Some ?img1])\<rparr>)"
      unfolding r1 [symmetric] by (rule add_image_found [OF f0])
    then have h1: "h1 = type_index_to_flattened_slot slot ?ty"
      and m1: "mgr1 = mgr\<lparr>images := (images mgr)(?ty := (images mgr ?ty)[slot := Some ?img1])\<rparr>"
      by simp_all
    have ty1: "probe_type env mgr1 i = ?ty" by (rule probe_type_cong) (simp add: m1)
    have eq1: "image_equals ?img1 i"
      using find_image_Some [OF f0] by (simp add: image_equals_reuse)
    have f1: "find_image i (images mgr1 ?ty) 0 = Some (slot, ?img1)"
      using find_image_update [OF f0 eq1] by (simp add: m1)
    have "(h2, md2, mgr2) = (type_index_to_flattened_slot slot ?ty, ?md,
            mgr1\<lparr>images := (images mgr1)(?ty := (images mgr1 ?ty)[slot := Some ?img2])\<rparr>)"
      unfolding r2 [symmetric] using add_image_found [of i mgr1 env slot ?img1] f1
      by (simp add: ty1)
    then have h2: "h2 = type_index_to_flattened_slot slot ?ty"
      and m2: "mgr2 = mgr1\<lparr>images := (images mgr1)(?ty := (images mgr1 ?ty)[slot := Some ?img2])\<rparr>"
      by simp_all
    have eq2: "image_equals ?img2 i" using eq1 by (rule image_equals_reuse)
    have f2: "find_image i (images mgr2 ?ty) 0 = Some (slot, ?img2)"
      using find_image_update [OF f1 eq2] by (simp add: m2)
    have u: "img_users ?img2 = users_of i (images mgr ?ty) + 2"
      by (simp add: users_reuse users_of_def f0)
    have c1: "count_images i (images mgr1 ?ty) = count_images i (images mgr ?ty)"
      using count_images_update [OF f0 eq1] by (simp add: m1)
    have c2: "count_images i (images mgr2 ?ty) = count_images i (images mgr1 ?ty)"
      using count_images_update [OF f1 eq2] by (simp add: m2)
    have pos: "0 < count_images i (images mgr ?ty)" using f0 by (rule find_image_Some_count)
    have len: "\<forall>t. length (images mgr2 t) = length (images mgr1 t)" by (simp add: m2)
    have tn: "tex_num_images mgr2 = tex_num_images mgr1" by (simp add: m2)
    have ex: "\<exists>slot img.
                h1 = type_index_to_flattened_slot slot ?ty \<and>
                find_image i (images mgr2 ?ty) 0 = Some (slot, img) \<and>
                img_users img = users_of i (images mgr ?ty) + 2"
      using h1 f2 u by blast
    have cnt: "count_images i (images mgr2 ?ty) = max 1 (count_images i (images mgr ?ty))"
      using c1 c2 pos by simp
    from h1 h2 have "h2 = h1" by simp
    with tn len ex cnt show ?thesis by blast
  next
    case None
    note f0 = None
    show ?thesis
    proof (cases "tex_count mgr > max_num_images mgr")
      case True
      have "(h1, md1, mgr1) = (- 1, ?md, mgr)"
        unfolding r1 [symmetric] by (rule add_image_full [OF f0 True])
      then have h1: "h1 = - 1" and m1: "mgr1 = mgr" by simp_all
      have "(h2, md2, mgr2) = (- 1, ?md, mgr)"
        unfolding r2 [symmetric] m1 by (rule add_image_full [OF f0 True])
      then have "h2 = - 1" and "mgr2 = mgr" by simp_all
      with h1 m1 show ?thesis by simp
    next
      case False
      let ?new = "new_image i animated frame is_volume isovalue ?md"
      let ?slot = "find_free_slot (images mgr ?ty) 0"
      let ?img2 = "reuse_image env ?new i frame' ?md"
      have "(h1, md1, mgr1) = (type_index_to_flattened_slot ?slot ?ty, ?md,
              mgr\<lparr>images := (images mgr)(?ty := insert_image (images mgr ?ty) 0 ?new),
                  tex_num_images := (tex_num_images mgr)(?ty := tex_num_images mgr ?ty + 1),
                  need_update := True\<rparr>)"
        unfolding r1 [symmetric] by (rule add_image_fresh [OF f0 False])
      then have h1: "h1 = type_index_to_flattened_slot ?slot ?ty"
        and m1: "mgr1 = mgr\<lparr>images := (images mgr)(?ty := insert_image (images mgr ?ty) 0 ?new),
                tex_num_images := (tex_num_images mgr)(?ty := tex_num_images mgr ?ty + 1),
                need_update := True\<rparr>"
        by simp_all
      have ty1: "probe_type env mgr1 i = ?ty" by (rule probe_type_cong) (simp add: m1)
      have eq1: "image_equals ?new i" by (rule image_equals_new)
      have f1: "find_image i (images mgr1 ?ty) 0 = Some (?slot, ?new)"
        using find_image_insert [OF f0 eq1] by (simp add: m1)
      have "(h2, md2, mgr2) = (type_index_to_flattened_slot ?slot ?ty, ?md,
              mgr1\<lparr>images := (images mgr1)(?ty := (images mgr1 ?ty)[?slot := Some ?img2])\<rparr>)"
        unfolding r2 [symmetric] using add_image_found [of i mgr1 env ?slot ?new] f1
        by (simp add: ty1)
      then have h2: "h2 = type_index_to_flattened_slot ?slot ?ty"
        and m2: "mgr2 = mgr1\<lparr>images := (images mgr1)(?ty := (images mgr1 ?ty)[?slot := Some ?img2])\<rparr>"
        by simp_all
      have eq2: "image_equals ?img2 i" using eq1 by (rule image_equals_reuse)
      have f2: "find_image i (images mgr2 ?ty) 0 = Some (?slot, ?img2)"
        using find_image_update [OF f1 eq2] by (simp add: m2)
      have u: "img_users ?img2 = users_of i (images mgr ?ty) + 2"
        by (simp add: users_reuse users_of_def f0 new_image_def)
      have c0: "count_images i (images mgr ?ty) = 0" using f0 by (rule find_image_None_count)
      have c1: "count_images i (images mgr1 ?ty) = 1"
        using count_images_insert [OF f0 eq1] by (simp add: m1)
      have c2: "count_images i (images mgr2 ?ty) = count_images i (images mgr1 ?ty)"
        using count_images_update [OF f1 eq2] by (simp add: m2)
      have len: "\<forall>t. length (images mgr2 t) = length (images mgr1 t)" by (simp add: m2)
      have tn: "tex_num_images mgr2 = tex_num_images mgr1" by (simp add: m2)
      have ex: "\<exists>slot img.
                  h1 = type_index_to_flattened_slot slot ?ty \<and>
                  find_image i (images mgr2 ?ty) 0 = Some (slot, img) \<and>
                  img_users img = users_of i (images mgr ?ty) + 2"
        using h1 f2 u by blast
      have cnt: "count_images i (images mgr2 ?ty) = max 1 (count_images i (images mgr ?ty))"
        using c0 c1 c2 by simp
      from h1 h2 have "h2 = h1" by simp
      with tn len ex cnt show ?thesis by blast
    qed
  qed
qed

theorem add_image_twice_witness:
  "fst (add_image example_env (new_manager 1 True) example_identity False (Fin 0) False (Fin 0)) = 1 \<and>
   fst (add_image example_env
          (snd (snd (add_image example_env (new_manager 1 True) example_identity
                       False (Fin 0) False (Fin 0))))
          example_identity False (Fin 0) False (Fin 0)) = 1 \<and>
   (\<exists>slot img.
      find_image example_identity
        (images (snd (snd (add_image example_env
            (snd (snd (add_image example_env (new_manager 1 True) example_identity
                         False (Fin 0) False (Fin 0))))
            example_identity False (Fin 0) False (Fin 0)))) IMAGE_DATA_TYPE_BYTE4) 0 =
        Some (slot, img) \<and> img_users img = 2)"
proof -
  let ?r1 = "add_image example_env (new_manager 1 True) example_identity False (Fin 0) False (Fin 0)"
  let ?r2 = "add_image example_env (snd (snd ?r1)) example_identity False (Fin 0) False (Fin 0)"
  have e1: "?r1 = (fst ?r1, fst (snd ?r1), snd (snd ?r1))" by simp
  have e2: "?r2 = (fst ?r2, fst (snd ?r2), snd (snd ?r2))" by simp
  have f: "find_image example_identity (images (new_manager 1 True) IMAGE_DATA_TYPE_BYTE4) 0 = None"
    by (simp add: new_manager_simps)
  have v1: "fst ?r1 = 1"
    using add_image_fresh [of example_identity "new_manager 1 True" example_env False "Fin 0" False "Fin 0"] f
    by (simp add: example_probe_type new_manager_simps
        type_index_to_flattened_slot_def IMAGE_DATA_TYPE_SHIFT_def)
  have u0: "users_of example_identity (images (new_manager 1 True) IMAGE_DATA_TYPE_BYTE4) = 0"
    by (simp add: users_of_def new_manager_simps)
  from add_image_twice [OF e1 e2] v1 u0 show ?thesis
    by (simp add: example_probe_type) blast
qed

subsection \<open>The pixel loops of the loader\<close>




















lemma finite_guard_rgba_length:
  "length (finite_guard_rgba fin zero n i pixels) = length pixels"
proof (induction fin zero n i pixels rule: finite_guard_rgba.induct)
  case (1 fin zero n i pixels)
  show ?case
  proof (cases "i < n")
    case True
    with 1 show ?thesis by (subst finite_guard_rgba.simps) (simp split: if_splits)
  next
    case False
    then show ?thesis by (subst finite_guard_rgba.simps) simp
  qed
qed





lemma float_generic: "file_load_image_generic float_env float_image = Some True"
  by (simp add: file_load_image_generic_def float_env_def float_image_def example_env_def
      example_image_def image_associate_alpha_def string_endswith_def)

lemma float_guard:
  "finite_guard_rgba isfinite (SFloat (Fin 0)) 2 0
     [SFloat NaN, SFloat (Fin (1 / 4)), SFloat (Fin (1 / 2)), SFloat (Fin (1 / 2)),
      SFloat PosInf, SFloat (Fin (1 / 4)), SFloat (Fin (1 / 2)), SFloat (Fin 1)] =
     [SFloat (Fin 0), SFloat (Fin 0), SFloat (Fin 0), SFloat (Fin 0),
      SFloat PosInf, SFloat (Fin (1 / 4)), SFloat (Fin (1 / 2)), SFloat (Fin 1)]"
  by (simp add: finite_guard_rgba.simps)

lemma float_normalize:
  "normalize_pixels float_env TD_FLOAT float_image IMAGE_DATA_TYPE_FLOAT4 False 2 1 1 4
     [SFloat NaN, SFloat (Fin (1 / 4)), SFloat (Fin (1 / 2)), SFloat (Fin (1 / 2)),
      SFloat PosInf, SFloat (Fin (1 / 4)), SFloat (Fin (1 / 2)), SFloat (Fin 1)] =
     [SFloat (Fin 0), SFloat (Fin 0), SFloat (Fin 0), SFloat (Fin 0),
      SFloat PosInf, SFloat (Fin (1 / 4)), SFloat (Fin (1 / 2)), SFloat (Fin 1)]"
  by (simp add: normalize_pixels_def finite_guard_def expand_pixels_def expand_rgba_def
      is_rgba_type_def float_guard float_env_def float_image_def example_env_def example_image_def)

lemma float_load_pixels:
  "map_option mem_pixels (img_mem (snd (file_load_image float_env example_device TD_FLOAT
       float_image IMAGE_DATA_TYPE_FLOAT4 0))) =
   Some [SFloat (Fin 0), SFloat (Fin 0), SFloat (Fin 0), SFloat (Fin 0),
         SFloat PosInf, SFloat (Fin (1 / 4)), SFloat (Fin (1 / 2)), SFloat (Fin 1)]"
proof -
  have md: "md_width (img_metadata float_image) = 2" "md_height (img_metadata float_image) = 1"
    "md_depth (img_metadata float_image) = 1" "md_channels (img_metadata float_image) = 4"
    "img_is_volume float_image = False" "img_filename float_image = ''a.exr''"
    by (simp_all add: float_image_def example_image_def)
  have rd: "read_image float_env ''a.exr'' TD_FLOAT u =
     [SFloat NaN, SFloat (Fin (1 / 4)), SFloat (Fin (1 / 2)), SFloat (Fin (1 / 2)),
      SFloat PosInf, SFloat (Fin (1 / 4)), SFloat (Fin (1 / 2)), SFloat (Fin 1)]" for u
    by (simp add: float_env_def)
  have fn: "format_name float_env ''a.exr'' = ''openexr''" by (simp add: float_env_def)
  have al: "dev_alloc_ok example_device n" for n by (simp add: example_device_def)
  have lp: "load_pixels float_env TD_FLOAT float_image IMAGE_DATA_TYPE_FLOAT4 0 True False =
     ([SFloat (Fin 0), SFloat (Fin 0), SFloat (Fin 0), SFloat (Fin 0),
       SFloat PosInf, SFloat (Fin (1 / 4)), SFloat (Fin (1 / 2)), SFloat (Fin 1)], 2, 1, 1)"
    using float_normalize
    by (simp add: load_pixels_def read_pixels_def md rd fn Let_def fill_buffer_def
        is_rgba_type_def)
  have cv: "compress_volume float_env example_device float_image t px w h d c =
              Some (px, t, - 1, - 1, - 1)" for t px w h d c
    by (simp add: compress_volume_def md)
  show ?thesis
    by (simp add: file_load_image_def float_generic md al lp cv Let_def is_rgba_type_def)
qed

text \<open>
  C1: for a float file loaded into a 4-channel type, the loader should zero every pixel
  that has a channel that is not finite. The guard as written steps through the pixels
  four at a time (\<open>i += 4\<close> with \<open>&pixels[i * 4]\<close>), so it examines the pixels 0, 4, 8,
  ... only (lemma \<open>finite_guard_rgba_skipped\<close>). For the two pixels of \<open>a.exr\<close> the
  loader stores the first one zeroed and the second one with its infinite channel.
\<close>

theorem file_load_image_guard_skips_pixel:
  "map_option mem_pixels (img_mem (snd (file_load_image float_env example_device TD_FLOAT
       float_image IMAGE_DATA_TYPE_FLOAT4 0))) =
   Some [SFloat (Fin 0), SFloat (Fin 0), SFloat (Fin 0), SFloat (Fin 0),
         SFloat PosInf, SFloat (Fin (1 / 4)), SFloat (Fin (1 / 2)), SFloat (Fin 1)] \<and>
   isfinite (SFloat PosInf) = False"
  using float_load_pixels by simp

theorem file_load_image_guard_skips_pixel_witness:
  "map_option mem_pixels (img_mem (snd (file_load_image float_env example_device TD_FLOAT
       float_image IMAGE_DATA_TYPE_FLOAT4 0))) \<noteq> None"
  using file_load_image_guard_skips_pixel by auto









lemma fill_buffer_length: "length (fill_buffer env n data) = n"
  by (simp add: fill_buffer_def)

lemma read_pixels_length:
  "components \<le> 4 \<Longrightarrow>
   length (snd (read_pixels env FileFormat img in_open buffer_size width height depth components)) =
     buffer_size"
  by (simp add: read_pixels_def Let_def fill_buffer_length)

text \<open>
  What the loader stores for a 4-channel type when the image is neither scaled down nor
  compressed as a volume: the buffer the finite guard leaves.
\<close>

lemma file_load_image_stores_normalized:
  assumes g: "file_load_image_generic env img = Some in_open"
      and w: "width = nat (md_width (img_metadata img))"
      and h: "height = nat (md_height (img_metadata img))"
      and d: "depth = nat (md_depth (img_metadata img))"
      and c: "components = nat (md_channels (img_metadata img))"
      and size: "0 < max (max width height) depth"
      and limit: "\<not> (0 < texture_limit \<and> texture_limit < int (max (max width height) depth))"
      and alloc: "dev_alloc_ok dev (width * height * depth)"
      and novol: "\<not> img_is_volume img"
      and rgba: "is_rgba_type type"
      and rp: "read_pixels env FileFormat img in_open (width * height * depth * 4)
                 width height depth components = (cmyk, pixels)"
  shows "map_option mem_pixels
           (img_mem (snd (file_load_image env dev FileFormat img type texture_limit))) =
         Some (take (width * height * depth * 4)
                 (normalize_pixels env FileFormat img type cmyk width height depth components
                    pixels))"
proof -
  have lp: "load_pixels env FileFormat img type texture_limit in_open False =
              (normalize_pixels env FileFormat img type cmyk width height depth components pixels,
               width, height, depth)"
    using rgba rp by (simp add: load_pixels_def Let_def w [symmetric] h [symmetric] d [symmetric]
        c [symmetric])
  have cv: "compress_volume env dev img t px width height depth components =
              Some (px, t, - 1, - 1, - 1)" for t px
    using novol by (simp add: compress_volume_def)
  have st: "(0 < texture_limit \<and> texture_limit < int (max (max width height) depth)) = False"
    using limit by simp
  have sz: "(max (max width height) depth = 0) = False"
    using size by arith
  have al: "dev_alloc_ok dev (width * height * depth) = True"
    using alloc by simp
  have ty: "is_rgba_type type = True"
    using rgba by simp
  show ?thesis
    unfolding file_load_image_def g Let_def w [symmetric] h [symmetric] d [symmetric]
      c [symmetric]
    by (simp only: option.case st sz al ty lp cv if_False if_True simp_thms prod.case)
       (simp add: Let_def)
qed




text \<open>
  The comparison of the scale loop is one of floats: a size of 16777217 becomes the float
  16777216, which a limit of 16777216 does not exceed, and nothing is halved.
\<close>

lemma bit_length_example: "bit_length 16777217 = 25" "bit_length 16777216 = 25"
  by (simp_all add: bit_length.simps)

lemma to_float_example: "to_float 16777217 = 16777216" "to_float 16777216 = 16777216"
  by (simp_all add: to_float_def bit_length_example Let_def)

lemma scale_halvings_example:
  "scale_halvings (to_float 16777217) (to_float 16777216) 0 = 0"
  by (simp add: to_float_example scale_halvings.simps)

subsection \<open>Loading on the device\<close>

text \<open>No loader changes the users of a record.\<close>

lemma file_load_failed_users:
  "img_users (file_load_failed env img type m) = img_users img"
  by (simp add: file_load_failed_def)

lemma file_load_image_users:
  "img_users (snd (file_load_image env dev ff img type limit)) = img_users img"
  by (simp add: file_load_image_def file_load_failed_users Let_def split: option.split prod.split)

lemma file_load_extern_vdb_users:
  "img_users (file_load_extern_vdb env dev img type) = img_users img"
  by (simp add: file_load_extern_vdb_def file_load_failed_users Let_def
      split: option.split prod.split)

lemma device_load_file_users:
  "img_users (device_load_file env scene dev type slot img) = img_users img"
  by (cases type)
     (simp_all add: device_load_file_def Let_def file_load_image_users file_load_extern_vdb_users)

lemma get_tx_users: "img_users (snd (get_tx env img convert cache_path)) = img_users img"
  by (simp add: get_tx_def Let_def)

lemma device_load_oiio_users:
  "img_users (fst (device_load_oiio env scene type slot img dev)) = img_users img"
  by (simp add: device_load_oiio_def Let_def case_prod_beta get_tx_users)

text \<open>What a loader that is not cancelled does to the manager.\<close>

lemma device_load_image_loaded:
  assumes "slot < length (images mgr type)" and "images mgr type ! slot = Some img"
  shows "\<exists>img'. fst (device_load_image env scene False type slot (mgr, dev)) =
                  mgr\<lparr>images := (images mgr)(type := (images mgr type)[slot := Some img'])\<rparr> \<and>
                \<not> img_need_load img' \<and> img_users img' = img_users img"
proof (cases "oiio_texture_system mgr \<and> img_builtin_data img = 0")
  case True
  obtain i d where r: "device_load_oiio env scene type slot img dev = (i, d)"
    by (cases "device_load_oiio env scene type slot img dev")
  with device_load_oiio_users [of env scene type slot img dev] have "img_users i = img_users img"
    by simp
  with assms True r show ?thesis
    by (intro exI [of _ "i\<lparr>img_need_load := False\<rparr>"]) (simp add: device_load_image_def)
next
  case False
  with assms show ?thesis
    by (intro exI [of _ "(device_load_file env scene dev type slot img)\<lparr>img_need_load := False\<rparr>"])
       (auto simp add: device_load_image_def device_load_file_users)
qed

lemma device_load_image_cancel: "device_load_image env scene True type slot st = st"
  by (simp add: device_load_image_def split: prod.split)

text \<open>A loader or a free changes the slot it is called for, and no other.\<close>

lemma device_load_image_shape:
  "\<exists>x. images (fst (device_load_image env scene c type slot (mgr, dev))) =
        (images mgr)(type := (images mgr type)[slot := x])"
proof -
  have same: "\<exists>x. images mgr = (images mgr)(type := (images mgr type)[slot := x])"
    by (intro exI [of _ "images mgr type ! slot"]) simp
  show ?thesis
  proof (cases "c \<or> (if slot < length (images mgr type) then images mgr type ! slot else None) = None")
    case True
    then have "fst (device_load_image env scene c type slot (mgr, dev)) = mgr"
      by (auto simp add: device_load_image_def)
    with same show ?thesis by simp
  next
    case False
    then obtain img where "(if slot < length (images mgr type) then images mgr type ! slot else None) = Some img"
      and "\<not> c" by auto
    then show ?thesis
      by (simp add: device_load_image_def Let_def split: prod.split) blast
  qed
qed

lemma device_free_image_shape:
  "\<exists>x. images (device_free_image mgr type slot) =
        (images mgr)(type := (images mgr type)[slot := x])"
proof (cases "if slot < length (images mgr type) then images mgr type ! slot else None")
  case None
  then have "device_free_image mgr type slot = mgr" by (simp add: device_free_image_def)
  then show ?thesis by (intro exI [of _ "images mgr type ! slot"]) simp
next
  case (Some a)
  then show ?thesis by (simp add: device_free_image_def) blast
qed

lemma device_update_step_shape:
  "\<exists>x. images (fst (device_update_step env scene cancel type slot st)) =
        (images (fst st))(type := (images (fst st) type)[slot := x])"
proof -
  obtain mgr dev where st: "st = (mgr, dev)" by (cases st)
  have same: "\<exists>x. images mgr = (images mgr)(type := (images mgr type)[slot := x])"
    by (intro exI [of _ "images mgr type ! slot"]) simp
  show ?thesis
  proof (cases "images mgr type ! slot")
    case None
    with same st show ?thesis by (simp add: device_update_step_def)
  next
    case (Some img)
    show ?thesis
    proof (cases "img_users img = 0")
      case True
      with Some st device_free_image_shape [of mgr type slot] show ?thesis
        by (simp add: device_update_step_def)
    next
      case False
      show ?thesis
      proof (cases "img_need_load img")
        case True
        with Some st False
          device_load_image_shape [of env scene "cancel type slot" type slot mgr dev]
        show ?thesis by (simp add: device_update_step_def)
      next
        case nl: False
        with Some st False same show ?thesis by (simp add: device_update_step_def)
      qed
    qed
  qed
qed

lemma device_update_step_other:
  assumes "(t', s') \<noteq> (type, slot)"
  shows "images (fst (device_update_step env scene cancel type slot st)) t' ! s' =
         images (fst st) t' ! s'"
proof -
  from device_update_step_shape [of env scene cancel type slot st]
  obtain x where x: "images (fst (device_update_step env scene cancel type slot st)) =
        (images (fst st))(type := (images (fst st) type)[slot := x])" by blast
  from assms show ?thesis unfolding x by (cases "t' = type") auto
qed

lemma device_update_step_length:
  "length (images (fst (device_update_step env scene cancel type slot st)) t') =
   length (images (fst st) t')"
proof -
  from device_update_step_shape [of env scene cancel type slot st]
  obtain x where x: "images (fst (device_update_step env scene cancel type slot st)) =
        (images (fst st))(type := (images (fst st) type)[slot := x])" by blast
  show ?thesis unfolding x by simp
qed

lemma device_update_step_loaded:
  assumes "slot < length (images (fst st) type)"
      and "images (fst st) type ! slot = Some img"
      and "img_users img \<noteq> 0"
      and "\<not> cancel type slot"
  shows "\<exists>img'. images (fst (device_update_step env scene cancel type slot st)) type ! slot =
                  Some img' \<and>
                \<not> img_need_load img' \<and> img_users img' = img_users img"
proof -
  obtain mgr dev where st: "st = (mgr, dev)" by (cases st)
  show ?thesis
  proof (cases "img_need_load img")
    case False
    with assms st show ?thesis by (simp add: device_update_step_def)
  next
    case True
    from assms st have a: "slot < length (images mgr type)" "images mgr type ! slot = Some img"
      by simp_all
    from device_load_image_loaded [OF a, of env scene dev]
    obtain img' where l: "fst (device_load_image env scene False type slot (mgr, dev)) =
                  mgr\<lparr>images := (images mgr)(type := (images mgr type)[slot := Some img'])\<rparr>"
      and p: "\<not> img_need_load img'" "img_users img' = img_users img" by blast
    from True assms st have "device_update_step env scene cancel type slot st =
        device_load_image env scene False type slot (mgr, dev)"
      by (simp add: device_update_step_def)
    with l a p show ?thesis by simp
  qed
qed

text \<open>The loop over the slots of one type.\<close>

lemma fold_step_other:
  "(t', s') \<notin> Pair type ` set slots \<Longrightarrow>
   images (fst (fold (device_update_step env scene cancel type) slots st)) t' ! s' =
   images (fst st) t' ! s'"
proof (induction slots arbitrary: st)
  case Nil
  then show ?case by simp
next
  case (Cons a slots)
  then have "(t', s') \<noteq> (type, a)" and "(t', s') \<notin> Pair type ` set slots" by auto
  with Cons.IH [of "device_update_step env scene cancel type a st"]
  show ?case by (simp add: device_update_step_other)
qed

lemma fold_step_length:
  "length (images (fst (fold (device_update_step env scene cancel type) slots st)) t') =
   length (images (fst st) t')"
  by (induction slots arbitrary: st) (simp_all add: device_update_step_length)

lemma fold_step_loaded:
  assumes "slot \<in> set slots" and "distinct slots"
      and "slot < length (images (fst st) type)"
      and "images (fst st) type ! slot = Some img"
      and "img_users img \<noteq> 0"
      and "\<not> cancel type slot"
  shows "\<exists>img'. images (fst (fold (device_update_step env scene cancel type) slots st)) type ! slot =
                  Some img' \<and>
                \<not> img_need_load img' \<and> img_users img' = img_users img"
  using assms
proof (induction slots arbitrary: st)
  case Nil
  then show ?case by simp
next
  case (Cons a slots)
  let ?st = "device_update_step env scene cancel type a st"
  show ?case
  proof (cases "a = slot")
    case True
    with Cons.prems have "(type, slot) \<notin> Pair type ` set slots" by auto
    then have "images (fst (fold (device_update_step env scene cancel type) slots ?st)) type ! slot =
          images (fst ?st) type ! slot" by (rule fold_step_other)
    moreover from device_update_step_loaded [of slot st type img cancel env scene] Cons.prems
    have "\<exists>img'. images (fst (device_update_step env scene cancel type slot st)) type ! slot =
                  Some img' \<and> \<not> img_need_load img' \<and> img_users img' = img_users img"
      by simp
    ultimately show ?thesis using True by simp
  next
    case False
    then have o: "images (fst ?st) type ! slot = images (fst st) type ! slot"
      by (intro device_update_step_other) simp
    from False Cons.prems have "slot \<in> set slots" "distinct slots" by simp_all
    moreover from Cons.prems have "slot < length (images (fst ?st) type)"
      by (simp add: device_update_step_length)
    moreover from o Cons.prems have "images (fst ?st) type ! slot = Some img" by simp
    ultimately have "\<exists>img'. images (fst (fold (device_update_step env scene cancel type) slots ?st))
         type ! slot = Some img' \<and> \<not> img_need_load img' \<and> img_users img' = img_users img"
      using Cons.prems by (intro Cons.IH) simp_all
    then show ?thesis by simp
  qed
qed

text \<open>The loop over the types.\<close>

lemma device_update_type_other:
  "t' \<noteq> type \<Longrightarrow>
   images (fst (device_update_type env scene cancel type st)) t' ! s' = images (fst st) t' ! s'"
  unfolding device_update_type_def by (rule fold_step_other) auto

lemma device_update_type_length:
  "length (images (fst (device_update_type env scene cancel type st)) t') = length (images (fst st) t')"
  unfolding device_update_type_def by (rule fold_step_length)

lemma device_update_type_loaded:
  assumes "slot < length (images (fst st) type)"
      and "images (fst st) type ! slot = Some img"
      and "img_users img \<noteq> 0"
      and "\<not> cancel type slot"
  shows "\<exists>img'. images (fst (device_update_type env scene cancel type st)) type ! slot = Some img' \<and>
                \<not> img_need_load img' \<and> img_users img' = img_users img"
  unfolding device_update_type_def using assms by (intro fold_step_loaded) simp_all

lemma fold_device_update_type_other:
  "t' \<notin> set types \<Longrightarrow>
   images (fst (fold (device_update_type env scene cancel) types st)) t' ! s' = images (fst st) t' ! s'"
  by (induction types arbitrary: st) (simp_all add: device_update_type_other)

lemma fold_device_update_type_loaded:
  assumes "type \<in> set types" and "distinct types"
      and "slot < length (images (fst st) type)"
      and "images (fst st) type ! slot = Some img"
      and "img_users img \<noteq> 0"
      and "\<not> cancel type slot"
  shows "\<exists>img'. images (fst (fold (device_update_type env scene cancel) types st)) type ! slot = Some img' \<and>
                \<not> img_need_load img' \<and> img_users img' = img_users img"
  using assms
proof (induction types arbitrary: st)
  case Nil
  then show ?case by simp
next
  case (Cons a types)
  let ?st = "device_update_type env scene cancel a st"
  show ?case
  proof (cases "a = type")
    case True
    with Cons.prems have "type \<notin> set types" by auto
    then have "images (fst (fold (device_update_type env scene cancel) types ?st)) type ! slot =
          images (fst ?st) type ! slot" by (rule fold_device_update_type_other)
    moreover from device_update_type_loaded [of slot st type img cancel env scene] Cons.prems
    have "\<exists>img'. images (fst (device_update_type env scene cancel type st)) type ! slot = Some img' \<and>
                \<not> img_need_load img' \<and> img_users img' = img_users img"
      by simp
    ultimately show ?thesis using True by simp
  next
    case False
    then have o: "images (fst ?st) type ! slot = images (fst st) type ! slot"
      by (intro device_update_type_other) simp
    from False Cons.prems have "type \<in> set types" "distinct types" by simp_all
    moreover from Cons.prems have "slot < length (images (fst ?st) type)"
      by (simp add: device_update_type_length)
    moreover from o Cons.prems have "images (fst ?st) type ! slot = Some img" by simp
    ultimately have "\<exists>img'. images (fst (fold (device_update_type env scene cancel) types ?st))
         type ! slot = Some img' \<and> \<not> img_need_load img' \<and> img_users img' = img_users img"
      using Cons.prems by (intro Cons.IH) simp_all
    then show ?thesis by simp
  qed
qed

lemma all_types_complete: "type \<in> set all_types" "distinct all_types"
  by (cases type) (simp_all add: all_types_def)

lemma device_update_unfold:
  "need_update mgr \<Longrightarrow>
   fst (device_update env scene cancel (mgr, dev)) =
     (fst (fold (device_update_type env scene cancel) all_types (mgr, dev)))\<lparr>need_update := False\<rparr>"
  by (simp add: device_update_def case_prod_beta)

lemma example_manager_images:
  "images example_manager type =
     (if type = IMAGE_DATA_TYPE_BYTE4 then [Some example_image, None] else [])"
  "need_update example_manager"
  by (simp_all add: example_manager_def new_manager_def)

lemma example_image_simps:
  "img_users example_image = 1" "img_need_load example_image"
  by (simp_all add: example_image_def)

lemma cancelled_update_type:
  "device_update_type env scene all_cancel type (example_manager, dev) = (example_manager, dev)"
  by (simp add: device_update_type_def example_manager_images device_update_step_def
        device_load_image_cancel all_cancel_def example_image_simps)

lemma cancelled_update:
  "device_update env scene all_cancel (example_manager, dev) =
     (example_manager\<lparr>need_update := False\<rparr>, dev)"
  by (simp add: device_update_def all_types_def cancelled_update_type example_manager_images)

text \<open>
  C7, as stated, fails: when the progress reports a cancel to the loader of
  \<open>example_image\<close>, \<open>device_update\<close> leaves the record with \<open>need_load\<close> set and clears
  \<open>need_update\<close>; the next call of \<open>device_update\<close>, with no cancel, returns at its first
  test and loads nothing: the record, with one user, still has \<open>need_load\<close> set.
\<close>

theorem device_update_cancel_counterexample:
  "map_option img_need_load
     (images (fst (device_update example_env example_scene no_cancel
        (device_update example_env example_scene all_cancel (example_manager, example_device))))
        IMAGE_DATA_TYPE_BYTE4 ! 0) = Some True \<and>
   map_option img_users
     (images (fst (device_update example_env example_scene no_cancel
        (device_update example_env example_scene all_cancel (example_manager, example_device))))
        IMAGE_DATA_TYPE_BYTE4 ! 0) = Some 1"
  unfolding cancelled_update
  by (simp add: device_update_def example_manager_images example_image_simps)


text \<open>
  C7, amended: a loader that finds the progress cancelled returns with the manager and
  the device as they were, so \<open>need_load\<close> stays set. \<open>device_update\<close> does nothing when
  \<open>need_update\<close> is clear and clears it whenever it runs, so a second \<open>device_update\<close>
  right after a first one changes nothing, whatever was cancelled. A record in use is
  loaded (\<open>need_load\<close> clear afterwards, users as before) by a \<open>device_update\<close> that
  starts with \<open>need_update\<close> set and whose progress reports no cancel to that loader.
\<close>

theorem device_update_cancel:
  "device_load_image env scene True type slot st = st \<and>
   (\<not> need_update mgr \<longrightarrow> device_update env scene cancel (mgr, dev) = (mgr, dev)) \<and>
   (need_update mgr \<longrightarrow> \<not> need_update (fst (device_update env scene cancel (mgr, dev)))) \<and>
   device_update env scene cancel' (device_update env scene cancel (mgr, dev)) =
     device_update env scene cancel (mgr, dev) \<and>
   (need_update mgr \<and> slot < length (images mgr type) \<and> images mgr type ! slot = Some img \<and>
    img_users img \<noteq> 0 \<and> \<not> cancel type slot \<longrightarrow>
      (\<exists>img'. images (fst (device_update env scene cancel (mgr, dev))) type ! slot = Some img' \<and>
              \<not> img_need_load img' \<and> img_users img' = img_users img))"
proof -
  have a: "device_load_image env scene True type slot st = st"
    by (rule device_load_image_cancel)
  have b: "device_update env scene cancel (mgr, dev) = (mgr, dev)" if "\<not> need_update mgr"
    using that by (simp add: device_update_def)
  have c: "\<not> need_update (fst (device_update env scene cancel (mgr, dev)))" if "need_update mgr"
    using that by (simp add: device_update_unfold)
  have "\<not> need_update (fst (device_update env scene cancel (mgr, dev)))"
    using c by (cases "need_update mgr") (simp_all add: device_update_def)
  then have e: "device_update env scene cancel' (device_update env scene cancel (mgr, dev)) =
                device_update env scene cancel (mgr, dev)"
    by (simp add: device_update_def [of env scene cancel'])
  have d: "\<exists>img'. images (fst (device_update env scene cancel (mgr, dev))) type ! slot = Some img' \<and>
              \<not> img_need_load img' \<and> img_users img' = img_users img"
    if "need_update mgr" "slot < length (images mgr type)" "images mgr type ! slot = Some img"
       "img_users img \<noteq> 0" "\<not> cancel type slot"
  proof -
    from fold_device_update_type_loaded
           [of type all_types slot "(mgr, dev)" img cancel env scene] that
    have "\<exists>img'. images (fst (fold (device_update_type env scene cancel) all_types (mgr, dev)))
                   type ! slot = Some img' \<and>
                 \<not> img_need_load img' \<and> img_users img' = img_users img"
      by (simp add: all_types_complete)
    with that(1) show ?thesis by (simp add: device_update_unfold)
  qed
  from a b c d e show ?thesis by blast
qed

theorem device_update_cancel_witness:
  "\<not> need_update (example_manager\<lparr>need_update := False\<rparr>) \<and>
   device_update example_env example_scene no_cancel
     (example_manager\<lparr>need_update := False\<rparr>, example_device) =
     (example_manager\<lparr>need_update := False\<rparr>, example_device) \<and>
   need_update example_manager \<and>
   0 < length (images example_manager IMAGE_DATA_TYPE_BYTE4) \<and>
   images example_manager IMAGE_DATA_TYPE_BYTE4 ! 0 = Some example_image \<and>
   img_users example_image \<noteq> 0 \<and>
   \<not> no_cancel IMAGE_DATA_TYPE_BYTE4 0 \<and>
   \<not> need_update (fst (device_update example_env example_scene no_cancel
                         (example_manager, example_device))) \<and>
   (\<exists>img'. images (fst (device_update example_env example_scene no_cancel
                          (example_manager, example_device))) IMAGE_DATA_TYPE_BYTE4 ! 0 =
             Some img' \<and>
           \<not> img_need_load img' \<and> img_users img' = 1)"
  using device_update_cancel [where env = example_env and scene = example_scene
          and type = IMAGE_DATA_TYPE_BYTE4 and slot = 0 and mgr = example_manager
          and dev = example_device and cancel = no_cancel and img = example_image]
        device_update_cancel [where env = example_env and scene = example_scene
          and mgr = "example_manager\<lparr>need_update := False\<rparr>"
          and dev = example_device and cancel = no_cancel]
  by (simp add: example_manager_images example_image_simps no_cancel_def)

lemma example_manager_oiio: "\<not> oiio_texture_system example_manager"
  by (simp add: example_manager_def new_manager_def)

lemma example_update_type:
  "device_update_type env example_scene no_cancel IMAGE_DATA_TYPE_BYTE4 (example_manager, dev) =
     (example_manager\<lparr>images := (images example_manager)(IMAGE_DATA_TYPE_BYTE4 :=
        [Some ((device_load_file env example_scene dev IMAGE_DATA_TYPE_BYTE4 0 example_image)
                 \<lparr>img_need_load := False\<rparr>), None])\<rparr>, dev)"
  by (simp add: device_update_type_def example_manager_images device_update_step_def
        device_load_image_def no_cancel_def example_image_simps example_manager_oiio)

lemma empty_update_type:
  "images mgr type = [] \<Longrightarrow> device_update_type env scene cancel type (mgr, dev) = (mgr, dev)"
  by (simp add: device_update_type_def)

lemma example_update:
  "images (fst (device_update env example_scene no_cancel (example_manager, dev)))
     IMAGE_DATA_TYPE_BYTE4 ! 0 =
   Some ((device_load_file env example_scene dev IMAGE_DATA_TYPE_BYTE4 0 example_image)
           \<lparr>img_need_load := False\<rparr>)"
  by (simp add: device_update_def all_types_def example_update_type empty_update_type
        example_manager_images)

lemma file_load_image_not_opened:
  "file_load_image_generic env img = None \<Longrightarrow>
   file_load_image env dev FileFormat img type texture_limit = (False, img)"
  by (simp add: file_load_image_def)

lemma missing_file_generic:
  "file_load_image_generic float_env (example_image\<lparr>img_mem_name := name, img_mem := None\<rparr>) =
     None"
  by (simp add: file_load_image_generic_def float_env_def example_env_def example_image_def)

lemma example_generic:
  "file_load_image_generic example_env (example_image\<lparr>img_mem_name := name, img_mem := None\<rparr>) =
     Some True"
  by (simp add: file_load_image_generic_def example_env_def example_image_def
        image_associate_alpha_def example_metadata_def)

lemma alloc_failed_load:
  "file_load_image example_env full_device UINT8
     (example_image\<lparr>img_mem_name := name, img_mem := None\<rparr>) IMAGE_DATA_TYPE_BYTE4 0 =
     (False, example_image\<lparr>img_mem_name := name, img_mem := None\<rparr>)"
proof -
  let ?img = "example_image\<lparr>img_mem_name := name, img_mem := None\<rparr>"
  have m: "md_width (img_metadata ?img) = 2" "md_height (img_metadata ?img) = 1"
          "md_depth (img_metadata ?img) = 1"
    by (simp_all add: example_image_def example_metadata_def)
  have d: "\<not> dev_alloc_ok full_device n" for n
    by (simp add: full_device_def)
  show ?thesis
    unfolding file_load_image_def example_generic by (simp add: m d Let_def)
qed

text \<open>
  C2: a loader that fails should leave the 1x1 placeholder of \<open>file_load_failed\<close> in the
  record. \<open>file_load_image\<close> returns false without calling \<open>file_load_failed\<close> when the
  file cannot be opened and when the allocation of the pixels fails, and
  \<open>device_load_image\<close> does not look at the value returned: it clears \<open>need_load\<close>. For
  the record of \<open>a.png\<close> where that file does not exist (\<open>float_env\<close>), and where the
  file is readable and the device cannot allocate (\<open>full_device\<close>), the record after
  \<open>device_update\<close> has one user, \<open>need_load\<close> clear and no buffer.
\<close>

theorem device_load_image_no_placeholder:
  "map_option (\<lambda>img. (img_users img, img_need_load img, img_mem img))
     (images (fst (device_update float_env example_scene no_cancel
                     (example_manager, example_device))) IMAGE_DATA_TYPE_BYTE4 ! 0) =
     Some (1, False, None) \<and>
   file_load_image_generic float_env example_image = None \<and>
   map_option (\<lambda>img. (img_users img, img_need_load img, img_mem img))
     (images (fst (device_update example_env example_scene no_cancel
                     (example_manager, full_device))) IMAGE_DATA_TYPE_BYTE4 ! 0) =
     Some (1, False, None) \<and>
   file_load_image_generic example_env example_image = Some True \<and>
   \<not> dev_alloc_ok full_device (2 * 1 * 1)"
proof -
  have a: "img_users (device_load_file float_env example_scene example_device
                        IMAGE_DATA_TYPE_BYTE4 0 example_image) = 1"
    by (simp add: device_load_file_users example_image_simps)
  have b: "img_mem (device_load_file float_env example_scene example_device
                      IMAGE_DATA_TYPE_BYTE4 0 example_image) = None"
    by (simp add: device_load_file_def Let_def file_load_image_not_opened missing_file_generic)
  have c: "file_load_image_generic float_env example_image = None"
    by (simp add: file_load_image_generic_def float_env_def example_env_def example_image_def)
  have d: "img_users (device_load_file example_env example_scene full_device
                        IMAGE_DATA_TYPE_BYTE4 0 example_image) = 1"
    by (simp add: device_load_file_users example_image_simps)
  have e: "img_mem (device_load_file example_env example_scene full_device
                      IMAGE_DATA_TYPE_BYTE4 0 example_image) = None"
    by (simp add: device_load_file_def Let_def alloc_failed_load example_scene_def)
  have f: "file_load_image_generic example_env example_image = Some True"
    by (simp add: file_load_image_generic_def example_env_def example_image_def
        image_associate_alpha_def example_metadata_def)
  have g: "\<not> dev_alloc_ok full_device (2 * 1 * 1)"
    by (simp add: full_device_def)
  from a b c d e f g show ?thesis by (simp add: example_update)
qed

theorem device_load_image_no_placeholder_witness:
  "map_option (\<lambda>img. img_users img > 0 \<and> \<not> img_need_load img \<and> img_mem img = None)
     (images (fst (device_update float_env example_scene no_cancel
                     (example_manager, example_device))) IMAGE_DATA_TYPE_BYTE4 ! 0) =
     Some True"
  using device_load_image_no_placeholder by auto

subsection \<open>The merge compositor\<close>

lemma parse_R:
  "parse_channels_pass False TD_FLOAT i ''L.Combined.R'' =
     (''L'', \<lparr>channel_name = ''L.Combined.R'', pass_format = TD_FLOAT,
              op = MERGE_CHANNEL_AVERAGE, offset = i, merge_offset = i\<rparr>)"
  by (simp add: parse_channels_pass_def parse_channel_name_def split_last_dot_def rfind_def
        parse_channel_operation_def string_startswith_def)

lemma parse_G:
  "parse_channels_pass False TD_FLOAT i ''L.Combined.G'' =
     (''L'', \<lparr>channel_name = ''L.Combined.G'', pass_format = TD_FLOAT,
              op = MERGE_CHANNEL_AVERAGE, offset = i, merge_offset = i\<rparr>)"
  by (simp add: parse_channels_pass_def parse_channel_name_def split_last_dot_def rfind_def
        parse_channel_operation_def string_startswith_def)

lemma two_files_metadata:
  "merge_channels_metadata [first_file, second_file] =
     ([first_file,
       second_file\<lparr>layers := [\<lparr>layer_name = ''L'',
          passes = [\<lparr>channel_name = ''L.Combined.G'', pass_format = TD_FLOAT,
                     op = MERGE_CHANNEL_AVERAGE, offset = 0, merge_offset = 1\<rparr>],
          samples = 30\<rparr>]\<rparr>],
      ([''L.Combined.R'', ''L.Combined.G''], [TD_FLOAT, TD_FLOAT]), [10, 40])"
  by (simp add: merge_channels_metadata_def first_file_def second_file_def parse_R parse_G
        merge_pass_def)

lemma two_files_pixels:
  "merge_pixels (fst (merge_channels_metadata [first_file, second_file])) 1 1 2 [10, 40] =
     Inr [1 / 2, 5 / 2]"
  unfolding two_files_metadata
  by (simp add: merge_pixels_def first_file_def second_file_def parse_R parse_G
        merge_pixels_pass_def numeral_2_eq_2)

lemma single_files_metadata:
  "merge_channels_metadata [single_file 10 (2 / 5), single_file 30 (4 / 5)] =
     ([single_file 10 (2 / 5), single_file 30 (4 / 5)],
      ([''L.Combined.R''], [TD_FLOAT]), [40])"
  by (simp add: merge_channels_metadata_def single_file_def parse_R merge_pass_def)

lemma single_files_pixels:
  "merge_pixels [single_file 10 (2 / 5), single_file 30 (4 / 5)] 1 1 1 [40] = Inr [7 / 10]"
  by (simp add: merge_pixels_def single_file_def parse_R merge_pixels_pass_def)


text \<open>
  C3: an averaged pass should be added with the weight "samples of the layer over the
  total samples of the output channel it merges into". \<open>merge_pixels\<close> reads the total at
  \<open>channel_total_samples[offset]\<close>, the position of the pass in its input file, where the
  totals are stored by output channel (\<open>merge_offset\<close>). For \<open>first_file\<close> and
  \<open>second_file\<close> the pass \<open>L.Combined.G\<close> of the second file has offset 0 and merge
  offset 1; the totals are 10 and 40; its weight is 30/10 where 30/40 is meant, and the
  merged value of that channel is 5/2, not the mean 7/10 of 2/5 (10 samples) and 4/5 (30
  samples). For two files with the same single channel the offsets agree and the result
  is 7/10.
\<close>

theorem merge_pixels_average_weight:
  "snd (snd (merge_channels_metadata [first_file, second_file])) = [10, 40] \<and>
   map (\<lambda>img. map (\<lambda>layer. map (\<lambda>pass. (channel_name pass, op pass, offset pass,
                                             merge_offset pass)) (passes layer)) (layers img))
     (fst (merge_channels_metadata [first_file, second_file])) =
     [[[(''L.Combined.R'', MERGE_CHANNEL_AVERAGE, 0, 0),
        (''L.Combined.G'', MERGE_CHANNEL_AVERAGE, 1, 1)]],
      [[(''L.Combined.G'', MERGE_CHANNEL_AVERAGE, 0, 1)]]] \<and>
   merge_pixels (fst (merge_channels_metadata [first_file, second_file])) 1 1 2 [10, 40] =
     Inr [1 / 2, 5 / 2] \<and>
   (10 * (2 / 5) + 30 * (4 / 5)) / 40 = (7 / 10 :: real) \<and>
   merge_pixels (fst (merge_channels_metadata [single_file 10 (2 / 5), single_file 30 (4 / 5)]))
     1 1 1 (snd (snd (merge_channels_metadata [single_file 10 (2 / 5), single_file 30 (4 / 5)]))) =
     Inr [7 / 10]"
proof -
  have a: "map (\<lambda>img. map (\<lambda>layer. map (\<lambda>pass. (channel_name pass, op pass, offset pass,
                                             merge_offset pass)) (passes layer)) (layers img))
     (fst (merge_channels_metadata [first_file, second_file])) =
     [[[(''L.Combined.R'', MERGE_CHANNEL_AVERAGE, 0, 0),
        (''L.Combined.G'', MERGE_CHANNEL_AVERAGE, 1, 1)]],
      [[(''L.Combined.G'', MERGE_CHANNEL_AVERAGE, 0, 1)]]]"
    unfolding two_files_metadata by (simp add: first_file_def parse_R parse_G)
  have b: "snd (snd (merge_channels_metadata [first_file, second_file])) = [10, 40]"
    unfolding two_files_metadata by simp
  have c: "merge_pixels
        (fst (merge_channels_metadata [single_file 10 (2 / 5), single_file 30 (4 / 5)]))
        1 1 1
        (snd (snd (merge_channels_metadata [single_file 10 (2 / 5), single_file 30 (4 / 5)]))) =
      Inr [7 / 10]"
    unfolding single_files_metadata using single_files_pixels by simp
  from a b c two_files_pixels show ?thesis by simp
qed

theorem merge_pixels_average_weight_witness:
  "merge_pixels (fst (merge_channels_metadata [first_file, second_file])) 1 1 2 [10, 40] \<noteq>
     Inr [1 / 2, 7 / 10]"
  using merge_pixels_average_weight by simp

text \<open>
  C6, as stated, fails: when the output file cannot be opened, \<open>save_output\<close> returns
  false after \<open>open\<close> was called on the temporary path, and does not call \<open>remove\<close>.
\<close>

theorem save_output_remove_counterexample:
  "save_output (example_save_env\<lparr>open_ok := False\<rparr>) ''out.exr'' [] =
     (False, ''Failed to open file out.exr.merge-tmp-0a1b.exr for writing: error'',
      [Open_Output ''out.exr.merge-tmp-0a1b.exr'']) \<and>
   Remove_File ''out.exr.merge-tmp-0a1b.exr'' \<notin>
     set (snd (snd (save_output (example_save_env\<lparr>open_ok := False\<rparr>) ''out.exr'' [])))"
  by (simp add: save_output_def tmp_filepath_def example_save_env_def)

lemma save_output_cases:
  "save_output env path error =
     (if \<not> create_ok env
      then (False, ''Failed to open temporary file '' @ tmp_filepath env path @ '' for writing'',
            [])
      else if \<not> open_ok env
      then (False, ''Failed to open file '' @ tmp_filepath env path @ '' for writing: '' @
                    geterror env,
            [Open_Output (tmp_filepath env path)])
      else if write_image_ok env \<and> close_ok env \<and> rename_ok env
      then (True, error,
            [Open_Output (tmp_filepath env path), Write_Image (tmp_filepath env path),
             Close_Output (tmp_filepath env path), Rename_File (tmp_filepath env path) path])
      else if write_image_ok env \<and> close_ok env
      then (False, ''Failed to move merged image to '' @ path @ '': '' @ rename_error env,
            [Open_Output (tmp_filepath env path), Write_Image (tmp_filepath env path),
             Close_Output (tmp_filepath env path), Rename_File (tmp_filepath env path) path,
             Remove_File (tmp_filepath env path)])
      else (False,
            (if \<not> close_ok env
             then ''Failed to save to file '' @ tmp_filepath env path @ '': '' @ geterror env
             else ''Failed to write to file '' @ tmp_filepath env path @ '': '' @ geterror env),
            [Open_Output (tmp_filepath env path), Write_Image (tmp_filepath env path),
             Close_Output (tmp_filepath env path), Remove_File (tmp_filepath env path)]))"
  by (simp add: save_output_def Let_def)

text \<open>
  C6, amended: the temporary path is the output path followed by \<open>.merge-tmp-\<close>, the
  unique name and the extension. \<open>save_output\<close> returns true exactly when every call
  succeeds. It renames only from the temporary path to the output path, only when the
  write and the close succeeded, and after them; when it returns true the calls are open,
  write, close, rename, and nothing is removed. When the file was created and opened and
  a later call fails (write, close or rename), the last call removes the temporary file.
  When \<open>create\<close> or \<open>open\<close> fails, it returns false and removes nothing.
\<close>

theorem save_output_atomic:
  "tmp_filepath env path =
     path @ ''.merge-tmp-'' @ filesystem_unique_path env @ filesystem_extension env path \<and>
   (fst (save_output env path error) \<longleftrightarrow>
      create_ok env \<and> open_ok env \<and> write_image_ok env \<and> close_ok env \<and> rename_ok env) \<and>
   (\<forall>t p. Rename_File t p \<in> set (snd (snd (save_output env path error))) \<longrightarrow>
      t = tmp_filepath env path \<and> p = path \<and> write_image_ok env \<and> close_ok env \<and>
      take 4 (snd (snd (save_output env path error))) =
        [Open_Output t, Write_Image t, Close_Output t, Rename_File t path]) \<and>
   (fst (save_output env path error) \<longrightarrow>
      snd (snd (save_output env path error)) =
        [Open_Output (tmp_filepath env path), Write_Image (tmp_filepath env path),
         Close_Output (tmp_filepath env path), Rename_File (tmp_filepath env path) path]) \<and>
   (create_ok env \<and> open_ok env \<and> \<not> fst (save_output env path error) \<longrightarrow>
      last (snd (snd (save_output env path error))) = Remove_File (tmp_filepath env path)) \<and>
   (\<not> (create_ok env \<and> open_ok env) \<longrightarrow>
      \<not> fst (save_output env path error) \<and>
      (\<forall>t. Remove_File t \<notin> set (snd (snd (save_output env path error)))))"
proof -
  have "tmp_filepath env path =
     path @ ''.merge-tmp-'' @ filesystem_unique_path env @ filesystem_extension env path"
    by (simp add: tmp_filepath_def)
  then show ?thesis unfolding save_output_cases [of env path error] by auto
qed

theorem save_output_atomic_witness:
  "fst (save_output example_save_env ''out.exr'' []) \<and>
   Rename_File ''out.exr.merge-tmp-0a1b.exr'' ''out.exr'' \<in>
     set (snd (snd (save_output example_save_env ''out.exr'' []))) \<and>
   snd (snd (save_output example_save_env ''out.exr'' [])) =
     [Open_Output ''out.exr.merge-tmp-0a1b.exr'', Write_Image ''out.exr.merge-tmp-0a1b.exr'',
      Close_Output ''out.exr.merge-tmp-0a1b.exr'',
      Rename_File ''out.exr.merge-tmp-0a1b.exr'' ''out.exr''] \<and>
   create_ok (example_save_env\<lparr>write_image_ok := False\<rparr>) \<and>
   open_ok (example_save_env\<lparr>write_image_ok := False\<rparr>) \<and>
   \<not> fst (save_output (example_save_env\<lparr>write_image_ok := False\<rparr>) ''out.exr'' []) \<and>
   last (snd (snd (save_output (example_save_env\<lparr>write_image_ok := False\<rparr>) ''out.exr'' []))) =
     Remove_File ''out.exr.merge-tmp-0a1b.exr'' \<and>
   \<not> (create_ok (example_save_env\<lparr>create_ok := False\<rparr>) \<and>
      open_ok (example_save_env\<lparr>create_ok := False\<rparr>)) \<and>
   \<not> fst (save_output (example_save_env\<lparr>create_ok := False\<rparr>) ''out.exr'' []) \<and>
   Remove_File ''out.exr.merge-tmp-0a1b.exr'' \<notin>
     set (snd (snd (save_output (example_save_env\<lparr>create_ok := False\<rparr>) ''out.exr'' [])))"
proof -
  have t: "tmp_filepath example_save_env ''out.exr'' = ''out.exr.merge-tmp-0a1b.exr''"
          "tmp_filepath (example_save_env\<lparr>write_image_ok := False\<rparr>) ''out.exr'' =
             ''out.exr.merge-tmp-0a1b.exr''"
    by (simp_all add: tmp_filepath_def example_save_env_def)
  have ok: "create_ok example_save_env" "open_ok example_save_env"
           "write_image_ok example_save_env" "close_ok example_save_env"
           "rename_ok example_save_env"
    by (simp_all add: example_save_env_def)
  let ?w = "example_save_env\<lparr>write_image_ok := False\<rparr>"
  let ?c = "example_save_env\<lparr>create_ok := False\<rparr>"
  note all_ok = save_output_atomic [of example_save_env "''out.exr''" "[]"]
  note no_write = save_output_atomic [of ?w "''out.exr''" "[]"]
  note no_create = save_output_atomic [of ?c "''out.exr''" "[]"]
  have a: "fst (save_output example_save_env ''out.exr'' [])"
    using all_ok ok by blast
  have b: "snd (snd (save_output example_save_env ''out.exr'' [])) =
        [Open_Output (tmp_filepath example_save_env ''out.exr''),
         Write_Image (tmp_filepath example_save_env ''out.exr''),
         Close_Output (tmp_filepath example_save_env ''out.exr''),
         Rename_File (tmp_filepath example_save_env ''out.exr'') ''out.exr'']"
    using all_ok a by blast
  have w: "create_ok ?w" "open_ok ?w" "\<not> write_image_ok ?w"
    by (simp_all add: example_save_env_def)
  have c: "\<not> fst (save_output ?w ''out.exr'' [])"
    using no_write w by blast
  have d: "last (snd (snd (save_output ?w ''out.exr'' []))) =
             Remove_File (tmp_filepath ?w ''out.exr'')"
    using no_write w c by blast
  have n: "\<not> create_ok ?c"
    by (simp add: example_save_env_def)
  have e: "\<not> fst (save_output ?c ''out.exr'' [])"
    using no_create n by blast
  have f: "Remove_File ''out.exr.merge-tmp-0a1b.exr'' \<notin>
             set (snd (snd (save_output ?c ''out.exr'' [])))"
    using no_create n by blast
  show ?thesis
    unfolding b d using a w c n e f by (simp add: t)
qed

end
